theory Spec2Isabelle
  imports Main
begin

section \<open>BatchIMG: the batch image pipeline of \<^verbatim>\<open>src/main.py\<close>\<close>

text \<open>
  The program is a thin layer over Pillow, Tk and the operating system. Everything those
  provide is kept outside the model, in an environment record \<open>env\<close> of oracle
  functions: a library call either returns a value or raises, and a raised exception is
  the text \<^verbatim>\<open>str(e)\<close> in the left summand of a sum type. The program's own state (the
  log list box and the module-level counters) is a record that every function takes and
  returns. Text is a list of \<open>char\<close>, one per character of ASCII text and the encoded
  bytes of any other character (directory entries are \<^verbatim>\<open>bytes\<close> in the code). The entry
  fields of the option store are read as ASCII; where the code lets Python's Unicode
  tables decide about a file name, the environment decides.
\<close>

subsection \<open>Python string primitives\<close>

text \<open>\<^verbatim>\<open>str.isspace\<close> on ASCII: the characters that \<^verbatim>\<open>str.strip()\<close>, \<^verbatim>\<open>int()\<close> and the
  regular expression class \<^verbatim>\<open>\s\<close> treat as white space (codes 9 to 13, 28 to 32).\<close>

definition isspace :: "char \<Rightarrow> bool" where
  "isspace c = (let n = (of_char c :: nat) in (9 \<le> n \<and> n \<le> 13) \<or> (28 \<le> n \<and> n \<le> 32))"

text \<open>The regular expression class \<^verbatim>\<open>\d\<close> on ASCII.\<close>

definition isdigit :: "char \<Rightarrow> bool" where
  "isdigit c = (let n = (of_char c :: nat) in 48 \<le> n \<and> n \<le> 57)"

text \<open>\<^verbatim>\<open>str.isnumeric()\<close> on ASCII: non-empty and all digits.\<close>

definition isnumeric :: "string \<Rightarrow> bool" where
  "isnumeric s = (s \<noteq> [] \<and> list_all isdigit s)"

definition strip :: "string \<Rightarrow> string" where
  "strip s = rev (dropWhile isspace (rev (dropWhile isspace s)))"

definition lower_char :: "char \<Rightarrow> char" where
  "lower_char c = (let n = (of_char c :: nat) in if 65 \<le> n \<and> n \<le> 90 then char_of (n + 32) else c)"

definition str_lower :: "string \<Rightarrow> string" where
  "str_lower s = map lower_char s"

text \<open>\<^verbatim>\<open>s.split(sep)\<close> for a separator of one character: never the empty list.\<close>

fun split :: "char \<Rightarrow> string \<Rightarrow> string list" where
  "split sep [] = [[]]"
| "split sep (c # cs) =
     (if c = sep then [] # split sep cs
      else (let r = split sep cs in (c # hd r) # tl r))"

definition digit_val :: "char \<Rightarrow> int" where
  "digit_val c = int (of_char c) - 48"

definition int_of_digits :: "string \<Rightarrow> int" where
  "int_of_digits s = foldl (\<lambda>n c. 10 * n + digit_val c) 0 s"

text \<open>\<^verbatim>\<open>int(s)\<close>: surrounding white space is dropped; anything but a run of digits raises
  ValueError. (Signs and underscores, which \<^verbatim>\<open>int\<close> also reads, never reach it here: every
  call is guarded by a regular expression or by \<^verbatim>\<open>isnumeric\<close>.)\<close>

definition py_int :: "string \<Rightarrow> string + int" where
  "py_int s = (let t = strip s in
     if isnumeric t then Inr (int_of_digits t)
     else Inl (''invalid literal for int() with base 10: '' @ s))"

text \<open>\<^verbatim>\<open>str(n)\<close> for an integer.\<close>

fun str_nat :: "nat \<Rightarrow> string" where
  "str_nat n = (if n < 10 then [''0123456789'' ! n] else str_nat (n div 10) @ [''0123456789'' ! (n mod 10)])"

definition str_int :: "int \<Rightarrow> string" where
  "str_int i = (if i < 0 then CHR ''-'' # str_nat (nat (- i)) else str_nat (nat i))"

text \<open>\<^verbatim>\<open>xs.index(x)\<close>: the first position of \<open>x\<close>, or ValueError.\<close>

fun index_from :: "nat \<Rightarrow> 'a list \<Rightarrow> 'a \<Rightarrow> nat option" where
  "index_from i [] x = None"
| "index_from i (y # ys) x = (if y = x then Some i else index_from (Suc i) ys x)"

definition list_index :: "string list \<Rightarrow> string \<Rightarrow> string + nat" where
  "list_index xs x = (case index_from 0 xs x of
      None \<Rightarrow> Inl (x @ '' is not in list'') | Some i \<Rightarrow> Inr i)"

text \<open>\<^verbatim>\<open>xs[i]\<close> as Python subscripts a list: an index from \<open>-len\<close> up to \<open>-1\<close> is
  taken from the end, and one outside \<open>-len .. len-1\<close> raises IndexError.\<close>

definition list_get :: "'a list \<Rightarrow> int \<Rightarrow> string + 'a" where
  "list_get xs i =
     (if 0 \<le> i \<and> i < int (length xs) then Inr (xs ! nat i)
      else if - int (length xs) \<le> i \<and> i < 0 then Inr (xs ! nat (int (length xs) + i))
      else Inl ''list index out of range'')"

subsection \<open>Regular expressions\<close>

text \<open>
  The two patterns of the program use character classes, literals, concatenation,
  alternation, \<^verbatim>\<open>?\<close>, \<^verbatim>\<open>+\<close>, \<^verbatim>\<open>*\<close> and \<^verbatim>\<open>{3}\<close>. They are kept as syntax trees and run by
  taking derivatives, one character at a time.
\<close>

datatype atom = Digit | Space | Lit char

fun atom_ok :: "atom \<Rightarrow> char \<Rightarrow> bool" where
  "atom_ok Digit c = isdigit c"
| "atom_ok Space c = isspace c"
| "atom_ok (Lit d) c = (c = d)"

datatype rexp = Nothing | Eps | Atom atom | Seq rexp rexp | Alt rexp rexp | Star rexp

definition Plus :: "rexp \<Rightarrow> rexp" where
  "Plus r = Seq r (Star r)"

definition Opt :: "rexp \<Rightarrow> rexp" where
  "Opt r = Alt r Eps"

definition Rep3 :: "rexp \<Rightarrow> rexp" where
  "Rep3 r = Seq r (Seq r r)"

fun nullable :: "rexp \<Rightarrow> bool" where
  "nullable Nothing = False"
| "nullable Eps = True"
| "nullable (Atom a) = False"
| "nullable (Seq r s) = (nullable r \<and> nullable s)"
| "nullable (Alt r s) = (nullable r \<or> nullable s)"
| "nullable (Star r) = True"

fun deriv :: "char \<Rightarrow> rexp \<Rightarrow> rexp" where
  "deriv c Nothing = Nothing"
| "deriv c Eps = Nothing"
| "deriv c (Atom a) = (if atom_ok a c then Eps else Nothing)"
| "deriv c (Seq r s) =
     (if nullable r then Alt (Seq (deriv c r) s) (deriv c s) else Seq (deriv c r) s)"
| "deriv c (Alt r s) = Alt (deriv c r) (deriv c s)"
| "deriv c (Star r) = Seq (deriv c r) (Star r)"

fun matches :: "rexp \<Rightarrow> string \<Rightarrow> bool" where
  "matches r [] = nullable r"
| "matches r (c # cs) = matches (deriv c r) cs"

text \<open>
  \<^verbatim>\<open>PATTERN.match(s)\<close> for a pattern written \<^verbatim>\<open>^(?:r)$\<close>, as a truth value. Without the
  MULTILINE flag \<^verbatim>\<open>$\<close> holds at the end of the text and also just before a line feed that
  ends the text.
\<close>

definition re_match :: "rexp \<Rightarrow> string \<Rightarrow> bool" where
  "re_match r s = (matches r s \<or> (s \<noteq> [] \<and> last s = CHR 0x0A \<and> matches r (butlast s)))"

text \<open>\<^verbatim>\<open>RESIZE_REGEX = re.compile("^(?:\d+%?x\d+%?|\d+%|\d+x\d+)$")\<close>\<close>

definition RESIZE_REGEX :: rexp where
  "RESIZE_REGEX =
     Alt (Seq (Plus (Atom Digit)) (Seq (Opt (Atom (Lit CHR ''%''))) (Seq (Atom (Lit CHR ''x''))
            (Seq (Plus (Atom Digit)) (Opt (Atom (Lit CHR ''%'')))))))
    (Alt (Seq (Plus (Atom Digit)) (Atom (Lit CHR ''%'')))
         (Seq (Plus (Atom Digit)) (Seq (Atom (Lit CHR ''x'')) (Plus (Atom Digit)))))"

text \<open>\<^verbatim>\<open>CROP_REGEX = re.compile("^(?:\d+%?)(?:,\s*\d+%?){3}$")\<close>\<close>

definition CROP_REGEX :: rexp where
  "CROP_REGEX =
     Seq (Seq (Plus (Atom Digit)) (Opt (Atom (Lit CHR ''%''))))
         (Rep3 (Seq (Atom (Lit CHR '',''))
                 (Seq (Star (Atom Space)) (Seq (Plus (Atom Digit)) (Opt (Atom (Lit CHR ''%'')))))))"

subsection \<open>Program state\<close>

record image =
  width :: int
  height :: int
  mode :: string
  format :: string
  filename :: string
  raster :: "nat list"

text \<open>The keyword arguments of the three \<^verbatim>\<open>img.save\<close> calls of \<^verbatim>\<open>start_processing\<close>.\<close>

datatype save_call =
    Save_spider
  | Save_frames bool bool bool bool int
  | Save_default string bool bool int

datatype file_content = Image_file image save_call | Text_file string

text \<open>
  The module-level variables that the batch code reads and writes, the log list box, the
  files written so far, and the number of confirmation dialogs shown.
\<close>

record state =
  log_listbox :: "string list"
  THREAD_COUNT :: int
  IMG_COUNT :: int
  ERR_COUNT :: int
  written :: "(string \<times> file_content) list"
  dialogs :: nat

definition insert_log :: "string \<Rightarrow> state \<Rightarrow> state" where
  "insert_log msg st = st\<lparr>log_listbox := log_listbox st @ [msg]\<rparr>"

subsection \<open>The option store\<close>

text \<open>
  Every Tk variable the batch code reads, under its own name. \<open>checked C v\<close> is the
  truth value of \<^verbatim>\<open>v.get()\<close> for an \<^verbatim>\<open>IntVar\<close> behind a check box, \<open>entry C v\<close> is
  \<^verbatim>\<open>v.get()\<close> for an entry field or a \<^verbatim>\<open>StringVar\<close>.
\<close>

datatype checkbox =
    transform_resize | transform_transpose | transform_crop | transform_scale | transform_expand
  | transform_flip | transform_mirror | transform_equalize | transform_grayscale
  | transform_invert | transform_posterize | transform_solarize
  | transform_blur | transform_contour | transform_detail | transform_edge_enhance
  | transform_edge_enhance_more | transform_emboss | transform_find_edges | transform_sharpen
  | transform_smooth | transform_smooth_more
  | transform_color | transform_contrast | transform_brightness | transform_sharpness
  | advanced_convert_filetype | advanced_convert_modes
  | advanced_stats | advanced_extrema | advanced_count | advanced_sum | advanced_sum2
  | advanced_mean | advanced_median | advanced_rms | advanced_var | advanced_stddev
  | advanced_blp1 | advanced_all_frames | advanced_interlace_gif | advanced_optimize
  | advanced_progressive_jpeg | advanced_lossless_webp
  | general_overwrite

datatype textvar =
    transform_resize_entry | transform_resize_resample | transform_transpose_mode
  | transform_crop_entry | transform_scale_entry | transform_scale_resample
  | transform_expand_entry | transform_posterize_entry | transform_solarize_entry
  | transform_color_entry | transform_contrast_entry | transform_brightness_entry
  | transform_sharpness_entry
  | advanced_convert_filetype_option | advanced_convert_modes_option
  | general_input_entry | general_output_entry

record config =
  checked :: "checkbox \<Rightarrow> bool"
  entry :: "textvar \<Rightarrow> string"
  transform_resize_type :: int
  advanced_jpg_quality :: int
  advanced_webp_quality :: int
  FILL_COLOR :: string

definition RESAMPLING :: "string list" where
  "RESAMPLING = [''NEAREST'', ''LANCZOS'', ''BILINEAR'', ''BICUBIC'', ''BOX'', ''HAMMING'']"

definition TRANSPOSE :: "string list" where
  "TRANSPOSE = [''FLIP_LEFT_RIGHT'', ''FLIP_TOP_BOTTOM'', ''ROTATE_90'', ''ROTATE_180'', ''ROTATE_270'']"

definition RESIZING :: "string list" where
  "RESIZING = [''Contain'', ''Cover'', ''Fit'', ''Pad'']"

subsection \<open>The environment: Pillow, the operating system, the operator\<close>

datatype image_filter =
    BLUR | CONTOUR | DETAIL | EDGE_ENHANCE | EDGE_ENHANCE_MORE
  | EMBOSS | FIND_EDGES | SHARPEN | SMOOTH | SMOOTH_MORE

text \<open>
  The Pillow calls that take an image and give an image, with the arguments the program
  passes. A factor is passed as the text \<open>s\<close> of the entry field and stands for
  \<^verbatim>\<open>float(s)\<close>.
\<close>

datatype pil_call =
    ImageOps_contain "int \<times> int" nat
  | ImageOps_cover "int \<times> int" nat
  | ImageOps_fit "int \<times> int" nat
  | ImageOps_pad "int \<times> int" nat
  | Image_transpose nat
  | Image_crop "int \<times> int \<times> int \<times> int"
  | ImageOps_scale string nat
  | ImageOps_expand int string
  | ImageOps_flip | ImageOps_mirror | ImageOps_equalize | ImageOps_grayscale | ImageOps_invert
  | ImageOps_posterize int
  | ImageOps_solarize int
  | Image_filter image_filter
  | ImageEnhance_Color string
  | ImageEnhance_Contrast string
  | ImageEnhance_Brightness string
  | ImageEnhance_Sharpness string
  | Image_convert string

datatype metric =
    Extrema | Stat_count | Stat_sum | Stat_sum2 | Stat_mean | Stat_median | Stat_rms
  | Stat_var | Stat_stddev

datatype float_sign = Negative | Zero | Positive | NaN

text \<open>
  What the program cannot compute by itself. An exception is the left summand, holding
  \<^verbatim>\<open>str(e)\<close>; for the calls that return nothing, \<open>Some e\<close> is the exception.
  \<^item> \<open>pil\<close>: a Pillow call on an image.
  \<^item> \<open>stat\<close>: \<^verbatim>\<open>str(img.getextrema())\<close> and \<^verbatim>\<open>str(ImageStat.Stat(img).m)\<close>.
  \<^item> \<open>float_sign\<close>: \<^verbatim>\<open>float(s)\<close>, of which the program observes only whether it raises
    ValueError (\<open>None\<close>) and how the value compares with 0.
  \<^item> \<open>float_pct\<close>: \<^verbatim>\<open>int(float(d) / 100.0 * size)\<close> in double precision.
  \<^item> \<open>Image_open\<close>, \<open>Image_save\<close>, \<open>write_text\<close>: decoding a path, encoding to a path,
    writing a text file.
  \<^item> \<open>fsencode_error\<close>, \<open>makedirs_error\<close>: whether resolving or creating the two
    directories raises.
  \<^item> \<open>listdir_in\<close>, \<open>listdir_out\<close>: \<^verbatim>\<open>os.listdir\<close> of the two directories.
  \<^item> \<open>askokcancel\<close>: the operator's answer to the overwrite dialog.
  \<^item> \<open>listdir_error\<close>: whether \<^verbatim>\<open>os.listdir\<close> raises (no \<^verbatim>\<open>try\<close> is around it).
  \<^item> \<open>unicode_lower\<close>, \<open>unicode_strip\<close>: \<^verbatim>\<open>str.lower()\<close> and \<^verbatim>\<open>str.strip()\<close> of text
    that is not all ASCII.
\<close>

record env =
  pil :: "pil_call \<Rightarrow> image \<Rightarrow> string + image"
  stat :: "metric \<Rightarrow> image \<Rightarrow> string + string"
  float_sign :: "string \<Rightarrow> float_sign option"
  float_pct :: "string \<Rightarrow> int \<Rightarrow> string + int"
  Image_open :: "string \<Rightarrow> string + image"
  Image_save :: "string \<Rightarrow> image \<Rightarrow> save_call \<Rightarrow> string option"
  write_text :: "string \<Rightarrow> string \<Rightarrow> string option"
  fsencode_error :: "string option"
  makedirs_error :: "string option"
  listdir_in :: "string list"
  listdir_out :: "string list"
  askokcancel :: bool
  listdir_error :: "string option"
  unicode_lower :: "string \<Rightarrow> string"
  unicode_strip :: "string \<Rightarrow> string"

subsection \<open>Helper functions\<close>

text \<open>\<^verbatim>\<open>format_size_1d(dim, size)\<close>:
  \<^verbatim>\<open>int(float(dim.split("%")[0]) / 100.0 * size) if '%' in dim else int(dim)\<close>.\<close>

definition format_size_1d :: "env \<Rightarrow> string \<Rightarrow> int \<Rightarrow> string + int" where
  "format_size_1d E dim sz =
     (if CHR ''%'' \<in> set dim then float_pct E (hd (split CHR ''%'' dim)) sz else py_int dim)"

definition is_float :: "env \<Rightarrow> string \<Rightarrow> bool" where
  "is_float E s = (float_sign E s \<noteq> None)"

text \<open>The handler of \<^verbatim>\<open>check\<close>, \<^verbatim>\<open>check2\<close> and the batch loop:
  \<^verbatim>\<open>insert_log(f"[ERROR] {str(e)}"); ERR_COUNT += 1\<close>.\<close>

definition log_error :: "string \<Rightarrow> state \<Rightarrow> state" where
  "log_error e st = (insert_log (''[ERROR] '' @ e) st)\<lparr>ERR_COUNT := ERR_COUNT (insert_log (''[ERROR] '' @ e) st) + 1\<rparr>"

text \<open>\<^verbatim>\<open>check(val, func, img)\<close>: \<open>func\<close> runs only if the check box is set; an exception
  it raises is logged and counted, and \<open>img\<close> keeps the value it had.\<close>

definition check ::
  "config \<Rightarrow> checkbox \<Rightarrow> ('a \<Rightarrow> state \<Rightarrow> (string + 'a) \<times> state) \<Rightarrow> 'a \<Rightarrow> state \<Rightarrow> 'a \<times> state" where
  "check C val func img st =
     (if checked C val then
        (case func img st of
           (Inr img', st') \<Rightarrow> (img', st')
         | (Inl e, st') \<Rightarrow> (img, log_error e st'))
      else (img, st))"

text \<open>\<^verbatim>\<open>check2(val, func, arg1, arg2)\<close>, for functions of two arguments.\<close>

definition check2 ::
  "config \<Rightarrow> checkbox \<Rightarrow> ('b \<Rightarrow> 'a \<Rightarrow> state \<Rightarrow> (string + 'a) \<times> state) \<Rightarrow> 'b \<Rightarrow> 'a \<Rightarrow> state
     \<Rightarrow> 'a \<times> state" where
  "check2 C val func arg1 arg2 st =
     (if checked C val then
        (case func arg1 arg2 st of
           (Inr r, st') \<Rightarrow> (r, st')
         | (Inl e, st') \<Rightarrow> (arg2, log_error e st'))
      else (arg2, st))"

subsection \<open>Image modification functions\<close>

text \<open>A transform function takes the image and the state and gives the state with what
  it logged, together with the new image or the exception that ended it.\<close>

type_synonym transform = "image \<Rightarrow> state \<Rightarrow> (string + image) \<times> state"

text \<open>The shape of most transform functions: one Pillow call, then one log line.\<close>

definition call_then_log :: "env \<Rightarrow> pil_call \<Rightarrow> string \<Rightarrow> transform" where
  "call_then_log E call msg img st =
     (case pil E call img of
        Inl e \<Rightarrow> (Inl e, st)
      | Inr img' \<Rightarrow> (Inr img', insert_log msg st))"

text \<open>The tuple \<^verbatim>\<open>(format_size_1d(a, img.width), format_size_1d(b, img.height))\<close>: the
  first component is evaluated first, and its exception wins.\<close>

definition size_pair :: "env \<Rightarrow> string \<Rightarrow> string \<Rightarrow> image \<Rightarrow> string + (int \<times> int)" where
  "size_pair E a b img =
     (case format_size_1d E a (width img) of
        Inl e \<Rightarrow> Inl e
      | Inr w \<Rightarrow> (case format_size_1d E b (height img) of
                   Inl e \<Rightarrow> Inl e
                 | Inr h \<Rightarrow> Inr (w, h)))"

text \<open>The end of \<^verbatim>\<open>func_transform_resize\<close> (from \<^verbatim>\<open>resize_method = ...\<close> on): the
  Pillow call chosen by the radio buttons, then the TRANSFORM line.\<close>

definition resize_apply :: "env \<Rightarrow> config \<Rightarrow> int \<times> int \<Rightarrow> transform" where
  "resize_apply E C new_size img st =
     (case list_index RESAMPLING (entry C transform_resize_resample) of
        Inl e \<Rightarrow> (Inl e, st)
      | Inr resize_method \<Rightarrow>
         (case (if transform_resize_type C = 0 then pil E (ImageOps_contain new_size resize_method) img
                else if transform_resize_type C = 1 then pil E (ImageOps_cover new_size resize_method) img
                else if transform_resize_type C = 2 then pil E (ImageOps_fit new_size resize_method) img
                else if transform_resize_type C = 3 then pil E (ImageOps_pad new_size resize_method) img
                else Inr img) of
            Inl e \<Rightarrow> (Inl e, st)
          | Inr img' \<Rightarrow>
             (case list_get RESIZING (transform_resize_type C) of
                Inl e \<Rightarrow> (Inl e, st)
              | Inr kind \<Rightarrow>
                 (Inr img', insert_log (''[TRANSFORM] Resized image using ''
                    @ entry C transform_resize_resample @ '' ('' @ kind @ '', ''
                    @ str_int (width img') @ ''x'' @ str_int (height img') @ '').'') st))))"

definition warn_resize_params :: transform where
  "warn_resize_params img st =
     (Inr img, insert_log ''[WARN] Invalid resize parameter(s). No resizing performed.'' st)"

definition func_transform_resize :: "env \<Rightarrow> config \<Rightarrow> transform" where
  "func_transform_resize E C img st =
     (let input = entry C transform_resize_entry;
          greater_than = split CHR ''>'' input;
          less_than = split CHR ''<'' input;
          new_size = (if length greater_than = 2 then hd greater_than else hd less_than)
      in
      if re_match RESIZE_REGEX new_size then
        (let size_input = split CHR ''x'' new_size in
         case (if length size_input = 2
               then size_pair E (size_input ! 0) (size_input ! 1) img
               else size_pair E (size_input ! 0) (size_input ! 0) img) of
           Inl e \<Rightarrow> (Inl e, st)
         | Inr new_size \<Rightarrow>
            if fst new_size = 0 \<or> snd new_size = 0 then warn_resize_params img st
            else if length greater_than = 2 then
              (if re_match RESIZE_REGEX (greater_than ! 1) then
                 (let resize_input = split CHR ''x'' (greater_than ! 1) in
                  if length resize_input \<noteq> 2 then warn_resize_params img st
                  else if isnumeric (resize_input ! 0) \<and> isnumeric (resize_input ! 1) then
                    (case py_int (resize_input ! 0) of
                       Inl e \<Rightarrow> (Inl e, st)
                     | Inr new_width \<Rightarrow>
                        (case py_int (resize_input ! 0) of
                           Inl e \<Rightarrow> (Inl e, st)
                         | Inr new_height \<Rightarrow>
                            if width img < new_width \<or> height img < new_height then
                              (Inr img, insert_log (''[INFO] Image dimension(s) less than ''
                                 @ str_int new_width @ ''x'' @ str_int new_height @ ''. Skipping.'') st)
                            else resize_apply E C new_size img st))
                  else warn_resize_params img st)
               else warn_resize_params img st)
            else if length less_than = 2 then
              (if re_match RESIZE_REGEX (less_than ! 1) then
                 (let resize_input = split CHR ''x'' (less_than ! 1) in
                  if length resize_input \<noteq> 2 then warn_resize_params img st
                  else if isnumeric (resize_input ! 0) \<and> isnumeric (resize_input ! 1) then
                    (case py_int (resize_input ! 0) of
                       Inl e \<Rightarrow> (Inl e, st)
                     | Inr new_width \<Rightarrow>
                        (case py_int (resize_input ! 0) of
                           Inl e \<Rightarrow> (Inl e, st)
                         | Inr new_height \<Rightarrow>
                            if width img > new_width \<or> height img > new_height then
                              (Inr img, insert_log (''[INFO] Image dimension(s) greater than ''
                                 @ str_int new_width @ ''x'' @ str_int new_height @ ''. Skipping.'') st)
                            else resize_apply E C new_size img st))
                  else warn_resize_params img st)
               else warn_resize_params img st)
            else resize_apply E C new_size img st)
      else (Inr img, insert_log ''[WARN] Incorrect resize syntax. No resizing performed.'' st))"

definition func_transform_transpose :: "env \<Rightarrow> config \<Rightarrow> transform" where
  "func_transform_transpose E C img st =
     (case list_index TRANSPOSE (entry C transform_transpose_mode) of
        Inl e \<Rightarrow> (Inl e, st)
      | Inr m \<Rightarrow> call_then_log E (Image_transpose m)
          (''[TRANSFORM] Transposed image using '' @ entry C transform_transpose_mode @ ''.'') img st)"

text \<open>The four coordinates of \<^verbatim>\<open>func_transform_crop\<close>, resolved in the order left,
  upper, right, lower. (The fields are stripped first, so \<^verbatim>\<open>int\<close> reads plain digits.)\<close>

definition crop_box :: "env \<Rightarrow> string list \<Rightarrow> image \<Rightarrow> string + (int \<times> int \<times> int \<times> int)" where
  "crop_box E parts img =
     (let left = parts ! 0; upper = parts ! 1; right = parts ! 2; lower = parts ! 3 in
      case (if CHR ''%'' \<in> set left then format_size_1d E left (width img) else py_int left) of
        Inl e \<Rightarrow> Inl e
      | Inr left \<Rightarrow>
      (case (if CHR ''%'' \<in> set upper then format_size_1d E upper (height img) else py_int upper) of
        Inl e \<Rightarrow> Inl e
      | Inr upper \<Rightarrow>
      (case (if CHR ''%'' \<in> set right
             then (case format_size_1d E right (width img) of
                     Inl e \<Rightarrow> Inl e | Inr v \<Rightarrow> Inr (width img - v))
             else py_int right) of
        Inl e \<Rightarrow> Inl e
      | Inr right \<Rightarrow>
      (case (if CHR ''%'' \<in> set lower
             then (case format_size_1d E lower (height img) of
                     Inl e \<Rightarrow> Inl e | Inr v \<Rightarrow> Inr (height img - v))
             else py_int lower) of
        Inl e \<Rightarrow> Inl e
      | Inr lower \<Rightarrow> Inr (left, upper, right, lower)))))"

definition func_transform_crop :: "env \<Rightarrow> config \<Rightarrow> transform" where
  "func_transform_crop E C img st =
     (let coordinates = entry C transform_crop_entry in
      if re_match CROP_REGEX coordinates then
        (let parts = map strip (split CHR '','' coordinates) in
         if length parts \<noteq> 4 then (Inl ''ValueError: wrong number of values to unpack'', st)
         else
          (case crop_box E parts img of
             Inl e \<Rightarrow> (Inl e, st)
           | Inr (left, upper, right, lower) \<Rightarrow>
              if left < right \<and> upper < lower \<and> right \<noteq> 0 \<and> lower \<noteq> 0 then
                call_then_log E (Image_crop (left, upper, right, lower))
                  (''[TRANSFORM] Cropped image region ('' @ str_int left @ '', '' @ str_int upper
                     @ '', '' @ str_int right @ '', '' @ str_int lower @ '').'') img st
              else (Inr img, insert_log ''[WARN] Invalid cropping dimensions. No cropping performed.'' st)))
      else (Inr img, insert_log ''[WARN] Incorrect cropping syntax. No cropping performed.'' st))"

definition func_transform_scale :: "env \<Rightarrow> config \<Rightarrow> transform" where
  "func_transform_scale E C img st =
     (let factor = entry C transform_scale_entry in
      if is_float E factor \<and> float_sign E factor = Some Positive then
        (case list_index RESAMPLING (entry C transform_scale_resample) of
           Inl e \<Rightarrow> (Inl e, st)
         | Inr scale_method \<Rightarrow> call_then_log E (ImageOps_scale factor scale_method)
             (''[TRANSFORM] Scaled image with factor '' @ factor @ '' using ''
                @ RESAMPLING ! scale_method @ ''.'') img st)
      else (Inr img, insert_log ''[WARN] Invalid scaling factor. No scaling performed.'' st))"

definition func_transform_expand :: "env \<Rightarrow> config \<Rightarrow> transform" where
  "func_transform_expand E C img st =
     (let border = entry C transform_expand_entry in
      if isnumeric border then
        call_then_log E (ImageOps_expand (int_of_digits border) (FILL_COLOR C))
          (''[TRANSFORM] Expanded image by '' @ border @ '' pixels with color ''
             @ FILL_COLOR C @ ''.'') img st
      else (Inr img, insert_log ''[WARN] Invalid border width. No expanding performed.'' st))"

definition func_transform_flip :: "env \<Rightarrow> transform" where
  "func_transform_flip E = call_then_log E ImageOps_flip ''[TRANSFORM] Flipped image.''"

definition func_transform_mirror :: "env \<Rightarrow> transform" where
  "func_transform_mirror E = call_then_log E ImageOps_mirror ''[TRANSFORM] Mirrored image.''"

definition func_transform_equalize :: "env \<Rightarrow> transform" where
  "func_transform_equalize E =
     call_then_log E ImageOps_equalize ''[TRANSFORM] Equalized image histogram.''"

definition func_transform_grayscale :: "env \<Rightarrow> transform" where
  "func_transform_grayscale E = call_then_log E ImageOps_grayscale ''[TRANSFORM] Grayscaled image.''"

definition func_transform_invert :: "env \<Rightarrow> transform" where
  "func_transform_invert E = call_then_log E ImageOps_invert ''[TRANSFORM] Inverted image.''"

definition func_transform_posterize :: "env \<Rightarrow> config \<Rightarrow> transform" where
  "func_transform_posterize E C img st =
     (let bits = entry C transform_posterize_entry in
      if isnumeric bits \<and> int_of_digits bits > 0 \<and> int_of_digits bits < 9 then
        call_then_log E (ImageOps_posterize (int_of_digits bits))
          (''[TRANSFORM] Posterized image, kept '' @ bits @ '' bit(s).'') img st
      else (Inr img, insert_log ''[WARN] Invalid posterize argument. Did not posterize image.'' st))"

definition func_transform_solarize :: "env \<Rightarrow> config \<Rightarrow> transform" where
  "func_transform_solarize E C img st =
     (let threshold = entry C transform_solarize_entry in
      if isnumeric threshold \<and> int_of_digits threshold \<ge> 0 then
        call_then_log E (ImageOps_solarize (int_of_digits threshold))
          (''[TRANSFORM] Solarized image with threshold '' @ threshold @ ''.'') img st
      else (Inr img, insert_log ''[WARN] Invalid solarize argument. Did not solarize image.'' st))"

definition func_transform_blur :: "env \<Rightarrow> transform" where
  "func_transform_blur E = call_then_log E (Image_filter BLUR) ''[TRANSFORM] Applied blur to image.''"

definition func_transform_contour :: "env \<Rightarrow> transform" where
  "func_transform_contour E =
     call_then_log E (Image_filter CONTOUR) ''[TRANSFORM] Applied contour to image.''"

definition func_transform_detail :: "env \<Rightarrow> transform" where
  "func_transform_detail E =
     call_then_log E (Image_filter DETAIL) ''[TRANSFORM] Applied detail to image.''"

definition func_transform_edge_enhance :: "env \<Rightarrow> transform" where
  "func_transform_edge_enhance E =
     call_then_log E (Image_filter EDGE_ENHANCE) ''[TRANSFORM] Applied edge enhance to image.''"

definition func_transform_edge_enhance_more :: "env \<Rightarrow> transform" where
  "func_transform_edge_enhance_more E =
     call_then_log E (Image_filter EDGE_ENHANCE_MORE) ''[TRANSFORM] Applied more edge enhance to image.''"

definition func_transform_emboss :: "env \<Rightarrow> transform" where
  "func_transform_emboss E =
     call_then_log E (Image_filter EMBOSS) ''[TRANSFORM] Applied emboss to image.''"

definition func_transform_find_edges :: "env \<Rightarrow> transform" where
  "func_transform_find_edges E =
     call_then_log E (Image_filter FIND_EDGES) ''[TRANSFORM] Applied edgefind to image.''"

definition func_transform_sharpen :: "env \<Rightarrow> transform" where
  "func_transform_sharpen E =
     call_then_log E (Image_filter SHARPEN) ''[TRANSFORM] Applied sharpen to image.''"

definition func_transform_smooth :: "env \<Rightarrow> transform" where
  "func_transform_smooth E =
     call_then_log E (Image_filter SMOOTH) ''[TRANSFORM] Applied smoothing to image.''"

definition func_transform_smooth_more :: "env \<Rightarrow> transform" where
  "func_transform_smooth_more E =
     call_then_log E (Image_filter SMOOTH_MORE) ''[TRANSFORM] Applied more smoothing to image.''"

text \<open>\<^verbatim>\<open>is_float(factor) and float(factor) >= 0\<close>, the guard of the four enhancements.\<close>

definition nonneg_float :: "env \<Rightarrow> string \<Rightarrow> bool" where
  "nonneg_float E factor =
     (is_float E factor \<and> (float_sign E factor = Some Zero \<or> float_sign E factor = Some Positive))"

definition func_transform_color :: "env \<Rightarrow> config \<Rightarrow> transform" where
  "func_transform_color E C img st =
     (let factor = entry C transform_color_entry in
      if nonneg_float E factor then
        call_then_log E (ImageEnhance_Color factor)
          (''[TRANSFORM] Enhanced color of image with factor '' @ factor @ ''.'') img st
      else (Inr img, insert_log ''[WARN] Invalid color factor. No enhancing performed.'' st))"

definition func_transform_contrast :: "env \<Rightarrow> config \<Rightarrow> transform" where
  "func_transform_contrast E C img st =
     (let factor = entry C transform_contrast_entry in
      if nonneg_float E factor then
        call_then_log E (ImageEnhance_Contrast factor)
          (''[TRANSFORM] Enhanced contrast of image with factor '' @ factor @ ''.'') img st
      else (Inr img, insert_log ''[WARN] Invalid contrast factor. No enhancing performed.'' st))"

definition func_transform_brightness :: "env \<Rightarrow> config \<Rightarrow> transform" where
  "func_transform_brightness E C img st =
     (let factor = entry C transform_brightness_entry in
      if nonneg_float E factor then
        call_then_log E (ImageEnhance_Brightness factor)
          (''[TRANSFORM] Enhanced brightness of image with factor '' @ factor @ ''.'') img st
      else (Inr img, insert_log ''[WARN] Invalid brightness factor. No enhancing performed.'' st))"

definition func_transform_sharpness :: "env \<Rightarrow> config \<Rightarrow> transform" where
  "func_transform_sharpness E C img st =
     (let factor = entry C transform_sharpness_entry in
      if nonneg_float E factor then
        call_then_log E (ImageEnhance_Sharpness factor)
          (''[TRANSFORM] Enhanced sharpness of image with factor '' @ factor @ ''.'') img st
      else (Inr img, insert_log ''[WARN] Invalid sharpness factor. No enhancing performed.'' st))"

text \<open>\<^verbatim>\<open>func_advanced_convert_filetype(img_extension)\<close> touches no image: it gives the new
  extension, \<^verbatim>\<open>f".{new_type.lower()}"\<close>.\<close>

definition func_advanced_convert_filetype ::
  "config \<Rightarrow> string \<Rightarrow> state \<Rightarrow> (string + string) \<times> state" where
  "func_advanced_convert_filetype C img_extension st =
     (let new_type = entry C advanced_convert_filetype_option in
      (Inr (CHR ''.'' # str_lower new_type),
       insert_log (''[ADVANCED] Converted image to filetype '' @ new_type @ ''.'') st))"

definition func_advanced_convert_mode :: "env \<Rightarrow> config \<Rightarrow> transform" where
  "func_advanced_convert_mode E C img st =
     (let new_mode = entry C advanced_convert_modes_option in
      call_then_log E (Image_convert new_mode)
        (''[ADVANCED] Converted image to mode '' @ new_mode @ ''.'') img st)"

subsection \<open>Paths\<close>

text \<open>\<^verbatim>\<open>os.path\<close> on a POSIX system, where \<^verbatim>\<open>os.sep\<close> is \<^verbatim>\<open>/\<close> (so that
  \<^verbatim>\<open>.replace(os.sep, '/')\<close> changes nothing) and \<^verbatim>\<open>os.fsdecode\<close> undoes \<^verbatim>\<open>os.fsencode\<close>.\<close>

definition basename :: "string \<Rightarrow> string" where
  "basename p = rev (takeWhile (\<lambda>c. c \<noteq> CHR ''/'') (rev p))"

text \<open>\<^verbatim>\<open>os.path.splitext\<close>: the extension starts at the last dot of the last path
  component, unless only dots come before it in that component.\<close>

definition splitext :: "string \<Rightarrow> string \<times> string" where
  "splitext p =
     (let name = basename p;
          tail = rev (takeWhile (\<lambda>c. c \<noteq> CHR ''.'') (rev name));
          stem = take (length name - length tail - 1) name
      in if CHR ''.'' \<in> set name \<and> list_ex (\<lambda>c. c \<noteq> CHR ''.'') stem
         then (take (length p - length tail - 1) p, drop (length p - length tail - 1) p)
         else (p, []))"

definition path_join :: "string \<Rightarrow> string \<Rightarrow> string" where
  "path_join a b =
     (if b \<noteq> [] \<and> hd b = CHR ''/'' then b
      else if a = [] \<or> last a = CHR ''/'' then a @ b
      else a @ ''/'' @ b)"

subsection \<open>The pipeline executor\<close>

text \<open>One line of the statistics block,
  \<^verbatim>\<open>img_stats += f"label:{str(...)}\n" if flag.get() else ""\<close>: nothing guards the Pillow
  call, so its exception leaves \<^verbatim>\<open>process\<close>.\<close>

definition stat_line ::
  "env \<Rightarrow> config \<Rightarrow> checkbox \<Rightarrow> string \<Rightarrow> metric \<Rightarrow> image \<Rightarrow> string + string \<Rightarrow> string + string" where
  "stat_line E C flag label m img acc =
     (case acc of
        Inl e \<Rightarrow> Inl e
      | Inr img_stats \<Rightarrow>
         if checked C flag then
           (case stat E m img of
              Inl e \<Rightarrow> Inl e
            | Inr v \<Rightarrow> Inr (img_stats @ label @ '':'' @ v @ [CHR 0x0A]))
         else Inr img_stats)"

definition statistics :: "env \<Rightarrow> config \<Rightarrow> image \<Rightarrow> string + string" where
  "statistics E C img =
     (if checked C advanced_stats then
        (let img_stats = Inr [];
             img_stats = stat_line E C advanced_extrema ''extrema'' Extrema img img_stats;
             img_stats = stat_line E C advanced_count ''count'' Stat_count img img_stats;
             img_stats = stat_line E C advanced_sum ''sum'' Stat_sum img img_stats;
             img_stats = stat_line E C advanced_sum2 ''sum2'' Stat_sum2 img img_stats;
             img_stats = stat_line E C advanced_mean ''mean'' Stat_mean img img_stats;
             img_stats = stat_line E C advanced_median ''median'' Stat_median img img_stats;
             img_stats = stat_line E C advanced_rms ''rms'' Stat_rms img img_stats;
             img_stats = stat_line E C advanced_var ''var'' Stat_var img img_stats;
             img_stats = stat_line E C advanced_stddev ''stddev'' Stat_stddev img img_stats
         in img_stats)
      else Inr [])"

text \<open>\<^verbatim>\<open>process(img)\<close> gives \<^verbatim>\<open>(img, img_name, img_extension, img_stats)\<close>, or the
  exception that left it.\<close>

definition process ::
  "env \<Rightarrow> config \<Rightarrow> image \<Rightarrow> state \<Rightarrow> (string + image \<times> string \<times> string \<times> string) \<times> state" where
  "process E C img st =
     (let img_name = fst (splitext (basename (filename img)));
          img_extension = snd (splitext (filename img));
          img_name_full = basename (filename img);
          st = insert_log (''[FILE] Processing '' @ img_name_full @ '' ('' @ format img @ '', ''
                 @ str_int (width img) @ ''x'' @ str_int (height img) @ '', '' @ mode img @ '')...'') st;
          (img, st) = check C transform_resize (func_transform_resize E C) img st;
          (img, st) = check C transform_transpose (func_transform_transpose E C) img st;
          (img, st) = check C transform_crop (func_transform_crop E C) img st;
          (img, st) = check C transform_scale (func_transform_scale E C) img st;
          (img, st) = check C transform_expand (func_transform_expand E C) img st;
          (img, st) = check C transform_flip (func_transform_flip E) img st;
          (img, st) = check C transform_mirror (func_transform_mirror E) img st;
          (img, st) = check C transform_equalize (func_transform_equalize E) img st;
          (img, st) = check C transform_grayscale (func_transform_grayscale E) img st;
          (img, st) = check C transform_invert (func_transform_invert E) img st;
          (img, st) = check C transform_posterize (func_transform_posterize E C) img st;
          (img, st) = check C transform_solarize (func_transform_solarize E C) img st;
          (img, st) = check C transform_blur (func_transform_blur E) img st;
          (img, st) = check C transform_contour (func_transform_contour E) img st;
          (img, st) = check C transform_detail (func_transform_detail E) img st;
          (img, st) = check C transform_edge_enhance (func_transform_edge_enhance E) img st;
          (img, st) = check C transform_edge_enhance_more (func_transform_edge_enhance_more E) img st;
          (img, st) = check C transform_emboss (func_transform_emboss E) img st;
          (img, st) = check C transform_find_edges (func_transform_find_edges E) img st;
          (img, st) = check C transform_sharpen (func_transform_sharpen E) img st;
          (img, st) = check C transform_smooth (func_transform_smooth E) img st;
          (img, st) = check C transform_smooth_more (func_transform_smooth_more E) img st;
          (img, st) = check C transform_color (func_transform_color E C) img st;
          (img, st) = check C transform_contrast (func_transform_contrast E C) img st;
          (img, st) = check C transform_brightness (func_transform_brightness E C) img st;
          (img, st) = check C transform_sharpness (func_transform_sharpness E C) img st;
          (img_extension, st) = check C advanced_convert_filetype
                                  (func_advanced_convert_filetype C) img_extension st;
          (img, st) = check C advanced_convert_modes (func_advanced_convert_mode E C) img st
      in case statistics E C img of
           Inl e \<Rightarrow> (Inl e, st)
         | Inr img_stats \<Rightarrow>
            (Inr (img, img_name, img_extension, img_stats),
             insert_log (''[FILE] Successfully processed '' @ img_name_full @ ''.'') st))"

subsection \<open>The batch runner\<close>

text \<open>The statement that ends every path of \<^verbatim>\<open>start_processing\<close>:
  \<^verbatim>\<open>THREAD_COUNT = 0 if THREAD_COUNT < 0 else (THREAD_COUNT - 1)\<close>.\<close>

definition thread_exit :: "state \<Rightarrow> state" where
  "thread_exit st = st\<lparr>THREAD_COUNT := (if THREAD_COUNT st < 0 then 0 else THREAD_COUNT st - 1)\<rparr>"

text \<open>\<^verbatim>\<open>img.save(path, ...)\<close>: the file is on disk if the call returns.\<close>

definition img_save :: "env \<Rightarrow> string \<Rightarrow> image \<Rightarrow> save_call \<Rightarrow> state \<Rightarrow> string option \<times> state" where
  "img_save E path img call st =
     (case Image_save E path img call of
        Some e \<Rightarrow> (Some e, st)
      | None \<Rightarrow> (None, st\<lparr>written := written st @ [(path, Image_file img call)]\<rparr>))"

text \<open>The \<^verbatim>\<open>match img_extension\<close> statement.\<close>

definition save_by_extension ::
  "env \<Rightarrow> config \<Rightarrow> string \<Rightarrow> image \<Rightarrow> string \<Rightarrow> state \<Rightarrow> string option \<times> state" where
  "save_by_extension E C img_extension img img_output_path st =
     (if img_extension = ''.spi'' then
        img_save E img_output_path img Save_spider (insert_log ''[FILE] Spider!'' st)
      else if img_extension \<in> set [''.png'', ''.gif'', ''.mpo'', ''.pdf'', ''.tiff'', ''.webp''] then
        img_save E img_output_path img
          (Save_frames (checked C advanced_all_frames) (checked C advanced_interlace_gif)
             (checked C advanced_optimize) (checked C advanced_lossless_webp)
             (advanced_webp_quality C)) st
      else
        img_save E img_output_path img
          (Save_default (if checked C advanced_blp1 then ''BLP1'' else ''BLP2'')
             (checked C advanced_optimize) (checked C advanced_progressive_jpeg)
             (advanced_jpg_quality C)) st)"

text \<open>\<^verbatim>\<open>if img_stats: ... file.write(img_stats)\<close>, with its log line.\<close>

definition save_statistics :: "env \<Rightarrow> config \<Rightarrow> string \<Rightarrow> string \<Rightarrow> state \<Rightarrow> string option \<times> state" where
  "save_statistics E C img_name img_stats st =
     (if img_stats \<noteq> [] then
        (let img_stats_output_path = path_join (entry C general_output_entry) (img_name @ ''.txt'') in
         case write_text E img_stats_output_path img_stats of
           Some e \<Rightarrow> (Some e, st)
         | None \<Rightarrow>
            (None, insert_log (''[FILE] Saved statistics: '' @ img_stats_output_path @ ''.'')
                     (st\<lparr>written := written st @ [(img_stats_output_path, Text_file img_stats)]\<rparr>)))
      else (None, st))"

text \<open>The body of the loop over \<^verbatim>\<open>os.listdir(in_directory)\<close>: one \<^verbatim>\<open>try\<close> block, whose
  handler logs and counts whatever was raised inside it.\<close>

definition process_entry :: "env \<Rightarrow> config \<Rightarrow> string \<Rightarrow> state \<Rightarrow> state" where
  "process_entry E C file st =
     (let img_path = path_join (entry C general_input_entry) file in
      case Image_open E img_path of
        Inl e \<Rightarrow> log_error e st
      | Inr opened \<Rightarrow>
         (case process E C opened st of
            (Inl e, st) \<Rightarrow> log_error e st
          | (Inr (img, img_name, img_extension, img_stats), st) \<Rightarrow>
             (let img_output_path = path_join (entry C general_output_entry) (img_name @ img_extension) in
              case save_by_extension E C img_extension img img_output_path st of
                (Some e, st) \<Rightarrow> log_error e st
              | (None, st) \<Rightarrow>
                 (let st = insert_log ''[FILE] Applied extension-specific options.'' st;
                      st = insert_log (''[FILE] Saved image: '' @ img_output_path) st
                  in case save_statistics E C img_name img_stats st of
                       (Some e, st) \<Rightarrow> log_error e st
                     | (None, st) \<Rightarrow> st\<lparr>IMG_COUNT := IMG_COUNT st + 1\<rparr>))))"

fun process_entries :: "env \<Rightarrow> config \<Rightarrow> string list \<Rightarrow> state \<Rightarrow> state" where
  "process_entries E C [] st = st"
| "process_entries E C (file # files) st = process_entries E C files (process_entry E C file st)"

text \<open>The name under which a directory entry takes part in the overwrite check:
  \<^verbatim>\<open>os.fsdecode(os.path.splitext(os.path.basename(file))[0]).lower().strip()\<close>.\<close>

definition is_ascii :: "char \<Rightarrow> bool" where
  "is_ascii c = ((of_char c :: nat) < 128)"

text \<open>\<^verbatim>\<open>s.lower()\<close> and \<^verbatim>\<open>s.strip()\<close> of any text: computed on ASCII text, read
  from the environment otherwise.\<close>

definition py_lower :: "env \<Rightarrow> string \<Rightarrow> string" where
  "py_lower E s = (if list_all is_ascii s then str_lower s else unicode_lower E s)"

definition py_strip :: "env \<Rightarrow> string \<Rightarrow> string" where
  "py_strip E s = (if list_all is_ascii s then strip s else unicode_strip E s)"

definition entry_key :: "env \<Rightarrow> string \<Rightarrow> string" where
  "entry_key E file = py_strip E (py_lower E (fst (splitext (basename file))))"

text \<open>\<^verbatim>\<open>set(xs).isdisjoint(ys)\<close>\<close>

definition isdisjoint :: "string list \<Rightarrow> string list \<Rightarrow> bool" where
  "isdisjoint xs ys = (\<not> list_ex (\<lambda>x. x \<in> set ys) xs)"

text \<open>\<^verbatim>\<open>start_processing\<close> from the loop on: every entry, the summary line, the
  decrement.\<close>

definition run_batch :: "env \<Rightarrow> config \<Rightarrow> state \<Rightarrow> state" where
  "run_batch E C st =
     (let st = process_entries E C (listdir_in E) st;
          st = insert_log (''[INFO] Finished processing '' @ str_int (IMG_COUNT st)
                 @ '' images with '' @ str_int (ERR_COUNT st) @ '' error(s).'') st
      in thread_exit st)"

text \<open>\<^verbatim>\<open>start_processing\<close>, run by one worker with no other batch in flight. When
  \<^verbatim>\<open>os.listdir\<close> raises, the exception leaves the function and ends the worker:
  nothing is logged and the counter of workers is not decremented.\<close>

definition start_processing :: "env \<Rightarrow> config \<Rightarrow> state \<Rightarrow> state" where
  "start_processing E C st =
     (let st = st\<lparr>IMG_COUNT := 0, ERR_COUNT := 0\<rparr> in
      case fsencode_error E of
        Some e \<Rightarrow> thread_exit (insert_log (''[ERROR] '' @ e) st)
      | None \<Rightarrow>
         (let st = insert_log ''[INFO] Started processing job.'' st in
          case makedirs_error E of
            Some e \<Rightarrow> thread_exit (insert_log (''[ERROR] '' @ e) st)
          | None \<Rightarrow>
             (case listdir_error E of
                Some e \<Rightarrow> st
              | None \<Rightarrow>
                 (let in_files = map (entry_key E) (listdir_in E);
                      out_files = map (entry_key E) (listdir_out E)
                  in if \<not> isdisjoint in_files out_files \<and> \<not> checked C general_overwrite then
                       (let st = st\<lparr>dialogs := dialogs st + 1\<rparr> in
                        if \<not> askokcancel E then
                          thread_exit (insert_log ''[INFO] Aborted processing job.'' st)
                        else run_batch E C st)
                     else run_batch E C st))))"

subsection \<open>The job dispatcher\<close>



subsection \<open>Batches in flight together\<close>

text \<open>
  \<^verbatim>\<open>IMG_COUNT\<close> and \<^verbatim>\<open>ERR_COUNT\<close> are module variables: every worker resets and counts
  in the same two. A batch that reaches its loop is a list of steps: the reset and the
  start line, one loop body for each directory entry, the summary with the decrement. A
  schedule is a list of steps, each with the number of the worker that takes it.
\<close>

datatype batch_step = Begin | Entry string | Finish

fun take_step :: "env \<Rightarrow> config \<Rightarrow> batch_step \<Rightarrow> state \<Rightarrow> state" where
  "take_step E C Begin st =
     insert_log ''[INFO] Started processing job.'' (st\<lparr>IMG_COUNT := 0, ERR_COUNT := 0\<rparr>)"
| "take_step E C (Entry file) st = process_entry E C file st"
| "take_step E C Finish st =
     thread_exit (insert_log (''[INFO] Finished processing '' @ str_int (IMG_COUNT st)
        @ '' images with '' @ str_int (ERR_COUNT st) @ '' error(s).'') st)"

definition batch_steps :: "env \<Rightarrow> batch_step list" where
  "batch_steps E = Begin # map Entry (listdir_in E) @ [Finish]"

fun run_schedule :: "env \<Rightarrow> config \<Rightarrow> (nat \<times> batch_step) list \<Rightarrow> state \<Rightarrow> state" where
  "run_schedule E C [] st = st"
| "run_schedule E C (x # xs) st = run_schedule E C xs (take_step E C (snd x) st)"


subsection \<open>The pipeline as a table of stages\<close>

text \<open>
  The specification describes the executor as a static list of operations, in five
  stages, each consulted in turn behind its check box. \<open>process_staged\<close> is that
  description; \<open>process\<close> above is the code.
\<close>

definition geometry :: "checkbox list" where
  "geometry = [transform_resize, transform_transpose, transform_crop, transform_scale, transform_expand]"

definition point_operations :: "checkbox list" where
  "point_operations = [transform_flip, transform_mirror, transform_equalize, transform_grayscale,
     transform_invert, transform_posterize, transform_solarize]"

definition filters :: "checkbox list" where
  "filters = [transform_blur, transform_contour, transform_detail, transform_edge_enhance,
     transform_edge_enhance_more, transform_emboss, transform_find_edges, transform_sharpen,
     transform_smooth, transform_smooth_more]"

definition enhancements :: "checkbox list" where
  "enhancements = [transform_color, transform_contrast, transform_brightness, transform_sharpness]"

definition conversions :: "checkbox list" where
  "conversions = [advanced_convert_filetype, advanced_convert_modes]"

definition stage_order :: "checkbox list" where
  "stage_order = geometry @ point_operations @ filters @ enhancements @ conversions"

definition transform_of :: "env \<Rightarrow> config \<Rightarrow> checkbox \<Rightarrow> transform" where
  "transform_of E C v =
     (case v of
        transform_resize \<Rightarrow> func_transform_resize E C
      | transform_transpose \<Rightarrow> func_transform_transpose E C
      | transform_crop \<Rightarrow> func_transform_crop E C
      | transform_scale \<Rightarrow> func_transform_scale E C
      | transform_expand \<Rightarrow> func_transform_expand E C
      | transform_flip \<Rightarrow> func_transform_flip E
      | transform_mirror \<Rightarrow> func_transform_mirror E
      | transform_equalize \<Rightarrow> func_transform_equalize E
      | transform_grayscale \<Rightarrow> func_transform_grayscale E
      | transform_invert \<Rightarrow> func_transform_invert E
      | transform_posterize \<Rightarrow> func_transform_posterize E C
      | transform_solarize \<Rightarrow> func_transform_solarize E C
      | transform_blur \<Rightarrow> func_transform_blur E
      | transform_contour \<Rightarrow> func_transform_contour E
      | transform_detail \<Rightarrow> func_transform_detail E
      | transform_edge_enhance \<Rightarrow> func_transform_edge_enhance E
      | transform_edge_enhance_more \<Rightarrow> func_transform_edge_enhance_more E
      | transform_emboss \<Rightarrow> func_transform_emboss E
      | transform_find_edges \<Rightarrow> func_transform_find_edges E
      | transform_sharpen \<Rightarrow> func_transform_sharpen E
      | transform_smooth \<Rightarrow> func_transform_smooth E
      | transform_smooth_more \<Rightarrow> func_transform_smooth_more E
      | transform_color \<Rightarrow> func_transform_color E C
      | transform_contrast \<Rightarrow> func_transform_contrast E C
      | transform_brightness \<Rightarrow> func_transform_brightness E C
      | transform_sharpness \<Rightarrow> func_transform_sharpness E C
      | advanced_convert_modes \<Rightarrow> func_advanced_convert_mode E C
      | _ \<Rightarrow> (\<lambda>img st. (Inr img, st)))"

definition apply_operation ::
  "env \<Rightarrow> config \<Rightarrow> checkbox \<Rightarrow> image \<times> string \<Rightarrow> state \<Rightarrow> (image \<times> string) \<times> state" where
  "apply_operation E C v w st =
     (if v = advanced_convert_filetype then
        (case check C v (func_advanced_convert_filetype C) (snd w) st of
           (ext, st') \<Rightarrow> ((fst w, ext), st'))
      else
        (case check C v (transform_of E C v) (fst w) st of
           (img, st') \<Rightarrow> ((img, snd w), st')))"

fun run_operations ::
  "env \<Rightarrow> config \<Rightarrow> checkbox list \<Rightarrow> image \<times> string \<Rightarrow> state \<Rightarrow> (image \<times> string) \<times> state" where
  "run_operations E C [] w st = (w, st)"
| "run_operations E C (v # vs) w st =
     (case apply_operation E C v w st of (w', st') \<Rightarrow> run_operations E C vs w' st')"

definition processing_line :: "image \<Rightarrow> string" where
  "processing_line img =
     ''[FILE] Processing '' @ basename (filename img) @ '' ('' @ format img @ '', ''
       @ str_int (width img) @ ''x'' @ str_int (height img) @ '', '' @ mode img @ '')...''"

definition pipeline :: "env \<Rightarrow> config \<Rightarrow> image \<Rightarrow> state \<Rightarrow> (image \<times> string) \<times> state" where
  "pipeline E C img st =
     run_operations E C stage_order (img, snd (splitext (filename img)))
       (insert_log (processing_line img) st)"

definition process_staged ::
  "env \<Rightarrow> config \<Rightarrow> image \<Rightarrow> state \<Rightarrow> (string + image \<times> string \<times> string \<times> string) \<times> state" where
  "process_staged E C img st =
     (case pipeline E C img st of
        (w, st') \<Rightarrow>
          (case statistics E C (fst w) of
             Inl e \<Rightarrow> (Inl e, st')
           | Inr img_stats \<Rightarrow>
              (Inr (fst w, fst (splitext (basename (filename img))), snd w, img_stats),
               insert_log (''[FILE] Successfully processed '' @ basename (filename img) @ ''.'') st')))"

text \<open>The nine lines of the statistics block, in the order of the code.\<close>

definition metric_table :: "(checkbox \<times> string \<times> metric) list" where
  "metric_table =
     [(advanced_extrema, ''extrema'', Extrema), (advanced_count, ''count'', Stat_count),
      (advanced_sum, ''sum'', Stat_sum), (advanced_sum2, ''sum2'', Stat_sum2),
      (advanced_mean, ''mean'', Stat_mean), (advanced_median, ''median'', Stat_median),
      (advanced_rms, ''rms'', Stat_rms), (advanced_var, ''var'', Stat_var),
      (advanced_stddev, ''stddev'', Stat_stddev)]"

subsection \<open>Effects on the state\<close>

text \<open>
  What a run adds to the state: log lines, errors counted, images counted, files written.
  \<open>logs_only\<close> says of a transform function, and \<open>quiet\<close> of a wrapped one, that
  the result and the additions do not depend on the state it starts from.
\<close>

definition effect :: "string list \<Rightarrow> int \<Rightarrow> int \<Rightarrow> (string \<times> file_content) list \<Rightarrow> state \<Rightarrow> state" where
  "effect ls n k ws st =
     st\<lparr>log_listbox := log_listbox st @ ls, ERR_COUNT := ERR_COUNT st + n,
        IMG_COUNT := IMG_COUNT st + k, written := written st @ ws\<rparr>"

definition logs_only :: "(state \<Rightarrow> (string + 'a) \<times> state) \<Rightarrow> bool" where
  "logs_only m = (\<exists>r ls. (\<forall>st. m st = (r, effect ls 0 0 [] st)) \<and> (case r of Inl e \<Rightarrow> ls = [] | Inr y \<Rightarrow> True))"

definition quiet :: "(state \<Rightarrow> 'r \<times> state) \<Rightarrow> bool" where
  "quiet m = (\<exists>r ls n. 0 \<le> n \<and> (\<forall>st. m st = (r, effect ls n 0 [] st)))"

definition decodes :: "env \<Rightarrow> config \<Rightarrow> string \<Rightarrow> bool" where
  "decodes E C file =
     (case Image_open E (path_join (entry C general_input_entry) file) of
        Inl e \<Rightarrow> False | Inr img \<Rightarrow> True)"

fun is_image_file :: "string \<times> file_content \<Rightarrow> bool" where
  "is_image_file (path, Image_file img call) = True"
| "is_image_file (path, Text_file txt) = False"

definition blank :: state where
  "blank = \<lparr>log_listbox = [], THREAD_COUNT = 0, IMG_COUNT = 0, ERR_COUNT = 0, written = [], dialogs = 0\<rparr>"

definition entry_errors :: "env \<Rightarrow> config \<Rightarrow> string \<Rightarrow> int" where
  "entry_errors E C file = ERR_COUNT (process_entry E C file blank)"

subsection \<open>A sample world\<close>

text \<open>
  A small environment and option store on which the statements below are run. Pillow
  refuses to invert an RGBA image and to take the median of a CMYK one, crops to the box
  and resizes to the size it is given, and otherwise hands the image back; percentages are
  exact; the source directory holds one picture and one text file; of the text that is
  not ASCII it folds the capital E with acute accent (bytes C3 89) to the small one.
\<close>

definition sample_pil :: "pil_call \<Rightarrow> image \<Rightarrow> string + image" where
  "sample_pil call img =
     (case call of
        ImageOps_invert \<Rightarrow>
          (if mode img = ''RGBA'' then Inl ''not supported for this image mode'' else Inr img)
      | Image_crop box \<Rightarrow>
          (case box of (l, u, r, b) \<Rightarrow> Inr (img\<lparr>width := r - l, height := b - u\<rparr>))
      | ImageOps_fit sz m \<Rightarrow> Inr (img\<lparr>width := fst sz, height := snd sz\<rparr>)
      | ImageOps_pad sz m \<Rightarrow> Inr (img\<lparr>width := fst sz, height := snd sz\<rparr>)
      | Image_convert m \<Rightarrow> Inr (img\<lparr>mode := m\<rparr>)
      | _ \<Rightarrow> Inr img)"

definition sample_stat :: "metric \<Rightarrow> image \<Rightarrow> string + string" where
  "sample_stat m img =
     (if m = Stat_median \<and> mode img = ''CMYK'' then Inl ''median failed''
      else if m = Extrema then Inr (mode img) else Inr ''[0]'')"

definition sample_open :: "string \<Rightarrow> string + image" where
  "sample_open path =
     (if snd (splitext path) = ''.png''
      then Inr \<lparr>width = 200, height = 100, mode = ''RGBA'', format = ''PNG'', filename = path, raster = []\<rparr>
      else Inl (''cannot identify image file '' @ path))"

definition sample_env :: env where
  "sample_env =
     \<lparr>pil = sample_pil, stat = sample_stat,
      float_sign = (\<lambda>s. if isnumeric s then Some (if int_of_digits s = 0 then Zero else Positive) else None),
      float_pct = (\<lambda>d sz. Inr (int_of_digits d * sz div 100)),
      Image_open = sample_open,
      Image_save = (\<lambda>path img call. None),
      write_text = (\<lambda>path txt. None),
      fsencode_error = None, makedirs_error = None,
      listdir_in = [''a.png'', ''notes.txt''], listdir_out = [''A.jpg''],
      askokcancel = True, listdir_error = None,
      unicode_lower = (\<lambda>s. if s = [CHR 0xC3, CHR 0x89] then [CHR 0xC3, CHR 0xA9] else s),
      unicode_strip = (\<lambda>s. s)\<rparr>"

definition sample_config :: config where
  "sample_config =
     \<lparr>checked = (\<lambda>v. False),
      entry = (\<lambda>v. if v = transform_resize_entry then ''100%''
                   else if v = transform_crop_entry then ''0%,0%,0%,0%''
                   else if v = transform_resize_resample \<or> v = transform_scale_resample then ''BICUBIC''
                   else if v = transform_transpose_mode then ''FLIP_LEFT_RIGHT''
                   else if v = advanced_convert_filetype_option then ''BLP''
                   else if v = advanced_convert_modes_option then ''1''
                   else if v = general_input_entry then ''input''
                   else if v = general_output_entry then ''output''
                   else []),
      transform_resize_type = 0, advanced_jpg_quality = 75, advanced_webp_quality = 80,
      FILL_COLOR = ''#000000''\<rparr>"

definition sample_state :: state where
  "sample_state =
     \<lparr>log_listbox = [], THREAD_COUNT = 1, IMG_COUNT = 0, ERR_COUNT = 0, written = [], dialogs = 0\<rparr>"

definition sample_image :: image where
  "sample_image =
     \<lparr>width = 200, height = 100, mode = ''RGBA'', format = ''PNG'', filename = ''input/a.png'', raster = []\<rparr>"

definition cmyk_config :: config where
  "cmyk_config = sample_config
     \<lparr>checked := (\<lambda>v. v \<in> set [advanced_convert_filetype, advanced_convert_modes, advanced_stats,
                                 advanced_extrema, advanced_median]),
      entry := (\<lambda>v. if v = advanced_convert_modes_option then ''CMYK'' else entry sample_config v)\<rparr>"

text \<open>The overwrite check in the words of the specification: the two directories'
  sets of base names (lower case, trimmed, without extension) intersect.\<close>

definition name_collision :: "env \<Rightarrow> bool" where
  "name_collision E =
     (set (map (entry_key E) (listdir_in E)) \<inter> set (map (entry_key E) (listdir_out E)) \<noteq> {})"

definition declining_env :: env where
  "declining_env = sample_env
     \<lparr>listdir_in := [[CHR 0xC3, CHR 0x89] @ ''.png'', ''b.png''],
      listdir_out := [[CHR 0xC3, CHR 0xA9] @ ''.jpg'', [CHR 0x09] @ '' B  .JPEG''],
      askokcancel := False\<rparr>"


definition invert_config :: config where
  "invert_config = sample_config\<lparr>checked := (\<lambda>v. v = transform_invert)\<rparr>"

definition stats_config :: config where
  "stats_config = cmyk_config
     \<lparr>checked := (\<lambda>v. v \<in> set [advanced_convert_filetype, advanced_convert_modes, advanced_stats,
                                 advanced_extrema, advanced_count])\<rparr>"

section \<open>Properties\<close>

subsection \<open>The code follows the table of stages\<close>

lemma case_case_pair:
  "(case (case c of (a, b) \<Rightarrow> f a b) of (x, y) \<Rightarrow> G x y)
     = (case c of (a, b) \<Rightarrow> (case f a b of (x, y) \<Rightarrow> G x y))"
  by (cases c) simp

lemma process_staged_eq: "process E C img st = process_staged E C img st"
  unfolding process_def process_staged_def pipeline_def processing_line_def stage_order_def
      geometry_def point_operations_def filters_def enhancements_def conversions_def
  by (simp only: Let_def append.simps run_operations.simps apply_operation_def transform_of_def
       case_case_pair prod.case fst_conv snd_conv checkbox.simps if_False if_True refl)

lemma effect_nothing [simp]: "effect [] 0 0 [] st = st"
  by (simp add: effect_def)

lemma effect_effect [simp]:
  "effect ls2 n2 k2 ws2 (effect ls1 n1 k1 ws1 st) = effect (ls1 @ ls2) (n1 + n2) (k1 + k2) (ws1 @ ws2) st"
  by (simp add: effect_def add.assoc)

lemma insert_log_effect: "insert_log msg st = effect [msg] 0 0 [] st"
  by (simp add: insert_log_def effect_def)

lemma log_error_effect: "log_error e st = effect [''[ERROR] '' @ e] 1 0 [] st"
  by (simp add: log_error_def insert_log_def effect_def)

lemma logs_only_raise [simp]: "logs_only (\<lambda>st. (Inl e, st))"
  unfolding logs_only_def by (rule exI [of _ "Inl e"], rule exI [of _ "[]"]) simp

lemma logs_only_return [simp]: "logs_only (\<lambda>st. (Inr y, st))"
  unfolding logs_only_def by (rule exI [of _ "Inr y"], rule exI [of _ "[]"]) simp

lemma logs_only_log [simp]: "logs_only (\<lambda>st. (Inr y, insert_log msg st))"
  unfolding logs_only_def by (rule exI [of _ "Inr y"], rule exI [of _ "[msg]"]) (simp add: insert_log_effect)

lemma logs_only_if [simp]:
  "logs_only (\<lambda>st. if c then a st else b st) = (if c then logs_only a else logs_only b)"
  by simp

lemma logs_only_case_sum [simp]:
  "logs_only (\<lambda>st. case x of Inl e \<Rightarrow> f e st | Inr v \<Rightarrow> g v st)
     = (case x of Inl e \<Rightarrow> logs_only (f e) | Inr v \<Rightarrow> logs_only (g v))"
  by (cases x) simp_all

lemma logs_only_case_prod [simp]:
  "logs_only (\<lambda>st. case p of (a, b) \<Rightarrow> f a b st) = (case p of (a, b) \<Rightarrow> logs_only (f a b))"
  by (cases p) simp

lemma logs_only_call [simp]: "logs_only (call_then_log E call msg img)"
  by (simp add: call_then_log_def [abs_def] split: sum.split)

lemma logs_only_resize_apply [simp]: "logs_only (resize_apply E C new_size img)"
  by (simp add: resize_apply_def [abs_def] split: sum.split)

lemma logs_only_warn_resize [simp]: "logs_only (warn_resize_params img)"
  by (simp add: warn_resize_params_def [abs_def])

lemma sum_case_same: "(case x of Inl e \<Rightarrow> c | Inr v \<Rightarrow> c) = c"
  by (cases x) simp_all

lemma prod_case_same: "(case p of (a, b) \<Rightarrow> c) = c"
  by (cases p) simp

lemmas logs_only_steps =
  Let_def logs_only_if logs_only_case_sum logs_only_case_prod logs_only_raise logs_only_return
  logs_only_log logs_only_call logs_only_resize_apply logs_only_warn_resize
  if_cancel sum_case_same prod_case_same

lemma logs_only_resize: "logs_only (func_transform_resize E C img)"
  by (simp only: func_transform_resize_def [abs_def] logs_only_steps)

lemma logs_only_transpose: "logs_only (func_transform_transpose E C img)"
  by (simp only: func_transform_transpose_def [abs_def] logs_only_steps)

lemma logs_only_crop: "logs_only (func_transform_crop E C img)"
  by (simp only: func_transform_crop_def [abs_def] logs_only_steps)

lemma logs_only_scale: "logs_only (func_transform_scale E C img)"
  by (simp only: func_transform_scale_def [abs_def] logs_only_steps)

lemma logs_only_expand: "logs_only (func_transform_expand E C img)"
  by (simp only: func_transform_expand_def [abs_def] logs_only_steps)

lemma logs_only_posterize: "logs_only (func_transform_posterize E C img)"
  by (simp only: func_transform_posterize_def [abs_def] logs_only_steps)

lemma logs_only_solarize: "logs_only (func_transform_solarize E C img)"
  by (simp only: func_transform_solarize_def [abs_def] logs_only_steps)

lemma logs_only_color: "logs_only (func_transform_color E C img)"
  by (simp only: func_transform_color_def [abs_def] logs_only_steps)

lemma logs_only_contrast: "logs_only (func_transform_contrast E C img)"
  by (simp only: func_transform_contrast_def [abs_def] logs_only_steps)

lemma logs_only_brightness: "logs_only (func_transform_brightness E C img)"
  by (simp only: func_transform_brightness_def [abs_def] logs_only_steps)

lemma logs_only_sharpness: "logs_only (func_transform_sharpness E C img)"
  by (simp only: func_transform_sharpness_def [abs_def] logs_only_steps)

lemma logs_only_convert_mode: "logs_only (func_advanced_convert_mode E C img)"
  by (simp only: func_advanced_convert_mode_def [abs_def] logs_only_steps)

lemma logs_only_filetype: "logs_only (func_advanced_convert_filetype C ext)"
  by (simp only: func_advanced_convert_filetype_def [abs_def] logs_only_steps)

lemmas logs_only_plain =
  func_transform_flip_def func_transform_mirror_def func_transform_equalize_def
  func_transform_grayscale_def func_transform_invert_def
  func_transform_blur_def func_transform_contour_def func_transform_detail_def
  func_transform_edge_enhance_def func_transform_edge_enhance_more_def
  func_transform_emboss_def func_transform_find_edges_def func_transform_sharpen_def
  func_transform_smooth_def func_transform_smooth_more_def

lemma logs_only_transform_of: "logs_only (transform_of E C v img)"
  by (cases v)
     (simp_all only: transform_of_def checkbox.case logs_only_plain logs_only_call logs_only_return
        logs_only_resize logs_only_transpose logs_only_crop logs_only_scale logs_only_expand
        logs_only_posterize logs_only_solarize logs_only_color logs_only_contrast
        logs_only_brightness logs_only_sharpness logs_only_convert_mode)

lemma quietI: "0 \<le> n \<Longrightarrow> (\<And>st. m st = (r, effect ls n 0 [] st)) \<Longrightarrow> quiet m"
  unfolding quiet_def by blast

lemma quiet_check:
  assumes "logs_only (f x)"
  shows "quiet (check C v f x)"
proof -
  from assms obtain r ls where run: "\<And>st. f x st = (r, effect ls 0 0 [] st)"
    unfolding logs_only_def by blast
  show ?thesis
  proof (cases "checked C v")
    case False
    then show ?thesis
      by (intro quietI [of 0 _ x "[]"]) (simp_all add: check_def)
  next
    case True
    show ?thesis
    proof (cases r)
      case (Inl e)
      with True run show ?thesis
        by (intro quietI [of 1 _ x "ls @ [''[ERROR] '' @ e]"]) (simp_all add: check_def log_error_effect)
    next
      case (Inr y)
      with True run show ?thesis
        by (intro quietI [of 0 _ y ls]) (simp_all add: check_def)
    qed
  qed
qed

lemma quiet_bind:
  assumes "quiet m" and "\<And>r. quiet (k r)"
  shows "quiet (\<lambda>st. case m st of (r, st') \<Rightarrow> k r st')"
proof -
  from assms(1) obtain r ls n where n: "0 \<le> n" and m: "\<And>st. m st = (r, effect ls n 0 [] st)"
    unfolding quiet_def by blast
  from assms(2) [of r] obtain r' ls' n' where n': "0 \<le> n'"
      and k: "\<And>st. k r st = (r', effect ls' n' 0 [] st)"
    unfolding quiet_def by blast
  have "\<forall>st. (case m st of (r, st') \<Rightarrow> k r st') = (r', effect (ls @ ls') (n + n') 0 [] st)"
    by (simp add: m k)
  moreover have "0 \<le> n + n'" using n n' by simp
  ultimately show ?thesis unfolding quiet_def by blast
qed

lemma quiet_map:
  assumes "quiet m"
  shows "quiet (\<lambda>st. case m st of (r, st') \<Rightarrow> (h r, st'))"
proof -
  from assms obtain r ls n where n: "0 \<le> n" and m: "\<And>st. m st = (r, effect ls n 0 [] st)"
    unfolding quiet_def by blast
  have "\<forall>st. (case m st of (r, st') \<Rightarrow> (h r, st')) = (h r, effect ls n 0 [] st)"
    by (simp add: m)
  with n show ?thesis unfolding quiet_def by blast
qed

lemma quiet_apply_operation: "quiet (apply_operation E C v w)"
proof (cases "v = advanced_convert_filetype")
  case True
  have "quiet (\<lambda>st. case check C v (func_advanced_convert_filetype C) (snd w) st of
                      (ext, st') \<Rightarrow> ((fst w, ext), st'))"
    by (rule quiet_map) (rule quiet_check, rule logs_only_filetype)
  with True show ?thesis by (simp add: apply_operation_def [abs_def])
next
  case False
  have "quiet (\<lambda>st. case check C v (transform_of E C v) (fst w) st of
                      (img, st') \<Rightarrow> ((img, snd w), st'))"
    by (rule quiet_map) (rule quiet_check, rule logs_only_transform_of)
  with False show ?thesis by (simp add: apply_operation_def [abs_def])
qed

lemma quiet_run_operations: "quiet (run_operations E C vs w)"
proof (induction vs arbitrary: w)
  case Nil
  show ?case by (intro quietI [of 0 _ w "[]"]) simp_all
next
  case (Cons v vs)
  have "quiet (\<lambda>st. case apply_operation E C v w st of (w', st') \<Rightarrow> run_operations E C vs w' st')"
    by (rule quiet_bind) (rule quiet_apply_operation, rule Cons.IH)
  moreover have "run_operations E C (v # vs) w
      = (\<lambda>st. case apply_operation E C v w st of (w', st') \<Rightarrow> run_operations E C vs w' st')"
    by (rule ext) simp
  ultimately show ?case by simp
qed

lemma quiet_pipeline: "quiet (pipeline E C img)"
proof -
  obtain w ls n where n: "0 \<le> n"
    and run: "\<And>st. run_operations E C stage_order (img, snd (splitext (filename img))) st
                = (w, effect ls n 0 [] st)"
    using quiet_run_operations [of E C stage_order "(img, snd (splitext (filename img)))"]
    unfolding quiet_def by blast
  from n show ?thesis
    by (intro quietI [of n _ w "processing_line img # ls"]) (simp_all add: pipeline_def run insert_log_effect)
qed

lemma quiet_process: "quiet (process E C img)"
proof -
  obtain w ls n where n: "0 \<le> n" and run: "\<And>st. pipeline E C img st = (w, effect ls n 0 [] st)"
    using quiet_pipeline [of E C img] unfolding quiet_def by blast
  show ?thesis
  proof (cases "statistics E C (fst w)")
    case (Inl e)
    with n show ?thesis
      by (intro quietI [of n _ "Inl e" ls]) (simp_all add: process_staged_eq process_staged_def run)
  next
    case (Inr img_stats)
    with n show ?thesis
      by (intro quietI [of n _ "Inr (fst w, fst (splitext (basename (filename img))), snd w, img_stats)"
            "ls @ [''[FILE] Successfully processed '' @ basename (filename img) @ ''.'']"])
         (simp_all add: process_staged_eq process_staged_def run insert_log_effect)
  qed
qed

lemma img_save_effect:
  "\<exists>r ws. (\<forall>st. img_save E path img call st = (r, effect [] 0 0 ws st))
      \<and> (case r of Some e \<Rightarrow> ws = [] | None \<Rightarrow> length (filter is_image_file ws) = 1)"
proof (cases "Image_save E path img call")
  case None
  then have "\<forall>st. img_save E path img call st = (None, effect [] 0 0 [(path, Image_file img call)] st)"
    by (simp add: img_save_def effect_def)
  then show ?thesis by (intro exI [of _ None] exI [of _ "[(path, Image_file img call)]"]) simp
next
  case (Some e)
  then have "\<forall>st. img_save E path img call st = (Some e, effect [] 0 0 [] st)"
    by (simp add: img_save_def)
  then show ?thesis by (intro exI [of _ "Some e"] exI [of _ "[]"]) simp
qed

lemma save_by_extension_effect:
  "\<exists>r ls ws. (\<forall>st. save_by_extension E C ext img path st = (r, effect ls 0 0 ws st))
      \<and> (case r of Some e \<Rightarrow> ws = [] | None \<Rightarrow> length (filter is_image_file ws) = 1)"
proof (cases "ext = ''.spi''")
  case True
  obtain r ws where s: "\<And>st. img_save E path img Save_spider st = (r, effect [] 0 0 ws st)"
    and w: "case r of Some e \<Rightarrow> ws = [] | None \<Rightarrow> length (filter is_image_file ws) = 1"
    using img_save_effect [of E path img Save_spider] by blast
  from True have "\<forall>st. save_by_extension E C ext img path st = (r, effect [''[FILE] Spider!''] 0 0 ws st)"
    by (simp add: save_by_extension_def s insert_log_effect)
  with w show ?thesis by blast
next
  case False
  define call where "call =
     (if ext \<in> set [''.png'', ''.gif'', ''.mpo'', ''.pdf'', ''.tiff'', ''.webp'']
      then Save_frames (checked C advanced_all_frames) (checked C advanced_interlace_gif)
             (checked C advanced_optimize) (checked C advanced_lossless_webp) (advanced_webp_quality C)
      else Save_default (if checked C advanced_blp1 then ''BLP1'' else ''BLP2'')
             (checked C advanced_optimize) (checked C advanced_progressive_jpeg) (advanced_jpg_quality C))"
  obtain r ws where s: "\<And>st. img_save E path img call st = (r, effect [] 0 0 ws st)"
    and w: "case r of Some e \<Rightarrow> ws = [] | None \<Rightarrow> length (filter is_image_file ws) = 1"
    using img_save_effect [of E path img call] by blast
  from False have "\<forall>st. save_by_extension E C ext img path st = img_save E path img call st"
    by (simp add: save_by_extension_def call_def)
  with s have "\<forall>st. save_by_extension E C ext img path st = (r, effect [] 0 0 ws st)" by simp
  with w show ?thesis by blast
qed

lemma save_statistics_effect:
  "\<exists>r ls ws. (\<forall>st. save_statistics E C img_name img_stats st = (r, effect ls 0 0 ws st))
      \<and> filter is_image_file ws = []"
proof -
  define p where "p = path_join (entry C general_output_entry) (img_name @ ''.txt'')"
  consider "img_stats = []" | e where "img_stats \<noteq> []" "write_text E p img_stats = Some e"
    | "img_stats \<noteq> []" "write_text E p img_stats = None"
    by (cases "write_text E p img_stats") auto
  then show ?thesis
  proof cases
    case 1
    then have "\<forall>st. save_statistics E C img_name img_stats st = (None, effect [] 0 0 [] st)"
      by (simp add: save_statistics_def)
    then show ?thesis by (intro exI [of _ None] exI [of _ "[]"]) simp
  next
    case 2
    then have "\<forall>st. save_statistics E C img_name img_stats st = (Some e, effect [] 0 0 [] st)"
      by (simp add: save_statistics_def p_def)
    then show ?thesis by (intro exI [of _ "Some e"] exI [of _ "[]"]) simp
  next
    case 3
    then have "\<forall>st. save_statistics E C img_name img_stats st =
        (None, effect [''[FILE] Saved statistics: '' @ p @ ''.''] 0 0 [(p, Text_file img_stats)] st)"
      by (simp add: save_statistics_def p_def insert_log_def effect_def Let_def)
    then show ?thesis
      by (intro exI [of _ None] exI [of _ "[''[FILE] Saved statistics: '' @ p @ ''.'']"]
            exI [of _ "[(p, Text_file img_stats)]"]) simp
  qed
qed

lemma count_image_effect: "st\<lparr>IMG_COUNT := IMG_COUNT st + 1\<rparr> = effect [] 0 1 [] st"
  by (simp add: effect_def)

lemma process_entry_effect:
  "\<exists>ls n k ws. 0 \<le> n \<and> (\<forall>st. process_entry E C file st = effect ls n k ws st)
      \<and> (if decodes E C file
          then (k = 0 \<or> k = 1) \<and> (0 < n \<or> k = 1) \<and> (k = 0 \<or> length (filter is_image_file ws) = 1)
          else n = 1 \<and> k = 0 \<and> ws = [])"
proof (cases "Image_open E (path_join (entry C general_input_entry) file)")
  case (Inl e)
  then have "\<forall>st. process_entry E C file st = effect [''[ERROR] '' @ e] 1 0 [] st"
    by (simp add: process_entry_def log_error_effect)
  moreover from Inl have "\<not> decodes E C file" by (simp add: decodes_def)
  ultimately show ?thesis
    by (intro exI [of _ "[''[ERROR] '' @ e]"] exI [of _ 1] exI [of _ 0] exI [of _ "[]"]) simp
next
  case (Inr opened)
  then have dec: "decodes E C file" by (simp add: decodes_def)
  obtain r ls n where n: "0 \<le> n" and run: "\<And>st. process E C opened st = (r, effect ls n 0 [] st)"
    using quiet_process [of E C opened] unfolding quiet_def by blast
  show ?thesis
  proof (cases r)
    case (Inl e)
    with Inr run have "\<forall>st. process_entry E C file st = effect (ls @ [''[ERROR] '' @ e]) (n + 1) 0 [] st"
      by (simp add: process_entry_def log_error_effect)
    with dec n show ?thesis
      by (intro exI [of _ "ls @ [''[ERROR] '' @ e]"] exI [of _ "n + 1"] exI [of _ 0] exI [of _ "[]"]) simp
  next
    case (Inr quad)
    obtain img img_name img_extension img_stats where quad: "quad = (img, img_name, img_extension, img_stats)"
      by (cases quad) auto
    define out where "out = path_join (entry C general_output_entry) (img_name @ img_extension)"
    obtain r2 ls2 ws2 where sv: "\<And>st. save_by_extension E C img_extension img out st = (r2, effect ls2 0 0 ws2 st)"
      and w2: "case r2 of Some e \<Rightarrow> ws2 = [] | None \<Rightarrow> length (filter is_image_file ws2) = 1"
      using save_by_extension_effect [of E C img_extension img out] by blast
    show ?thesis
    proof (cases r2)
      case (Some e)
      with \<open>Image_open E _ = Inr opened\<close> Inr quad run sv
      have "\<forall>st. process_entry E C file st = effect (ls @ ls2 @ [''[ERROR] '' @ e]) (n + 1) 0 ws2 st"
        by (simp add: process_entry_def log_error_effect out_def)
      with dec n show ?thesis
        by (intro exI [of _ "ls @ ls2 @ [''[ERROR] '' @ e]"] exI [of _ "n + 1"] exI [of _ 0] exI [of _ ws2]) simp
    next
      case None
      obtain r3 ls3 ws3 where st3: "\<And>st. save_statistics E C img_name img_stats st = (r3, effect ls3 0 0 ws3 st)"
        and w3: "filter is_image_file ws3 = []"
        using save_statistics_effect [of E C img_name img_stats] by blast
      define mid where "mid = ls @ ls2 @ [''[FILE] Applied extension-specific options.'', ''[FILE] Saved image: '' @ out] @ ls3"
      show ?thesis
      proof (cases r3)
        case (Some e)
        with None \<open>Image_open E _ = Inr opened\<close> Inr quad run sv st3
        have "\<forall>st. process_entry E C file st = effect (mid @ [''[ERROR] '' @ e]) (n + 1) 0 (ws2 @ ws3) st"
          by (simp add: process_entry_def log_error_effect out_def insert_log_effect mid_def)
        with dec n show ?thesis
          by (intro exI [of _ "mid @ [''[ERROR] '' @ e]"] exI [of _ "n + 1"] exI [of _ 0] exI [of _ "ws2 @ ws3"]) simp
      next
        case r3: None
        with None \<open>Image_open E _ = Inr opened\<close> Inr quad run sv st3
        have "\<forall>st. process_entry E C file st = effect mid n 1 (ws2 @ ws3) st"
          by (simp add: process_entry_def out_def insert_log_effect mid_def count_image_effect)
        moreover from None w2 w3 have "length (filter is_image_file (ws2 @ ws3)) = 1" by simp
        ultimately show ?thesis using dec n
          by (intro exI [of _ mid] exI [of _ n] exI [of _ 1] exI [of _ "ws2 @ ws3"]) auto
      qed
    qed
  qed
qed

lemma process_entry_frame:
  "dialogs (process_entry E C file st) = dialogs st"
  "THREAD_COUNT (process_entry E C file st) = THREAD_COUNT st"
  "ERR_COUNT (process_entry E C file st) = ERR_COUNT st + entry_errors E C file"
proof -
  obtain ls n k ws where run: "\<And>st. process_entry E C file st = effect ls n k ws st"
    using process_entry_effect [of E C "file"] by blast
  show "dialogs (process_entry E C file st) = dialogs st"
    and "THREAD_COUNT (process_entry E C file st) = THREAD_COUNT st"
    and "ERR_COUNT (process_entry E C file st) = ERR_COUNT st + entry_errors E C file"
    by (simp_all add: run effect_def entry_errors_def blank_def)
qed



lemma process_entries_frame:
  "dialogs (process_entries E C files st) = dialogs st
   \<and> THREAD_COUNT (process_entries E C files st) = THREAD_COUNT st"
  by (induction files arbitrary: st) (simp_all add: process_entry_frame)



lemma isl_stat_line:
  "isl (stat_line E C flag label m img acc) = (isl acc \<or> (checked C flag \<and> isl (stat E m img)))"
  by (cases acc; cases "stat E m img"; simp add: stat_line_def)

lemma statistics_raises:
  assumes "checked C advanced_stats" and "(flag, label, m) \<in> set metric_table"
    and "checked C flag" and "stat E m img = Inl e"
  shows "\<exists>e'. statistics E C img = Inl e'"
proof -
  from assms(2) have "isl (statistics E C img)"
    unfolding metric_table_def using assms(1,3,4)
    by (simp add: statistics_def Let_def isl_stat_line) (elim disjE; simp)
  then show ?thesis by (cases "statistics E C img") auto
qed

lemma pipeline_frame:
  "written (snd (pipeline E C img st)) = written st"
  "IMG_COUNT (snd (pipeline E C img st)) = IMG_COUNT st"
proof -
  obtain w ls n where "\<And>st. pipeline E C img st = (w, effect ls n 0 [] st)"
    using quiet_pipeline [of E C img] unfolding quiet_def by blast
  then show "written (snd (pipeline E C img st)) = written st"
    and "IMG_COUNT (snd (pipeline E C img st)) = IMG_COUNT st"
    by (simp_all add: effect_def)
qed

lemma process_pipeline:
  "process E C img st =
     (case statistics E C (fst (fst (pipeline E C img st))) of
        Inl e \<Rightarrow> (Inl e, snd (pipeline E C img st))
      | Inr img_stats \<Rightarrow>
         (Inr (fst (fst (pipeline E C img st)), fst (splitext (basename (filename img))),
               snd (fst (pipeline E C img st)), img_stats),
          insert_log (''[FILE] Successfully processed '' @ basename (filename img) @ ''.'')
            (snd (pipeline E C img st))))"
  by (cases "pipeline E C img st") (simp add: process_staged_eq process_staged_def split: sum.split)

lemma isdisjoint_iff: "isdisjoint xs ys \<longleftrightarrow> set xs \<inter> set ys = {}"
  by (auto simp add: isdisjoint_def list_ex_iff)

lemma run_batch_frame:
  "dialogs (run_batch E C st) = dialogs st"
  by (simp add: run_batch_def thread_exit_def insert_log_def process_entries_frame Let_def)

lemma basename_plain:
  assumes "CHR ''/'' \<notin> set p"
  shows "basename p = p"
proof -
  have "\<forall>c \<in> set (rev p). c \<noteq> CHR ''/''" using assms by auto
  then have "takeWhile (\<lambda>c. c \<noteq> CHR ''/'') (rev p) = rev p"
    by (simp only: takeWhile_eq_all_conv)
  then show ?thesis unfolding basename_def by (simp only: rev_rev_ident)
qed

lemma splitext_stem:
  assumes "CHR ''/'' \<notin> set stem" and "CHR ''/'' \<notin> set ext" and "CHR ''.'' \<notin> set ext"
    and "list_ex (\<lambda>c. c \<noteq> CHR ''.'') stem"
  shows "splitext (stem @ CHR ''.'' # ext) = (stem, CHR ''.'' # ext)"
proof -
  let ?p = "stem @ CHR ''.'' # ext"
  have b: "basename ?p = ?p" using assms(1,2) by (intro basename_plain) simp
  have t: "takeWhile (\<lambda>c. c \<noteq> CHR ''.'') (rev ext @ CHR ''.'' # rev stem) = rev ext"
    using assms(3) by (auto simp add: takeWhile_tail)
  show ?thesis using assms(4) by (simp add: splitext_def b t Let_def)
qed

lemma transform_raise_keeps_state:
  assumes "transform_of E C v img st = (Inl e, st1)"
  shows "st1 = st"
proof -
  obtain r ls where run: "\<And>st. transform_of E C v img st = (r, effect ls 0 0 [] st)"
    and quiet: "case r of Inl e \<Rightarrow> ls = [] | Inr y \<Rightarrow> True"
    using logs_only_transform_of [of E C v img] unfolding logs_only_def by blast
  from assms run [of st] have "r = Inl e" and "st1 = effect ls 0 0 [] st" by simp_all
  with quiet show ?thesis by simp
qed

lemma transform_of_filetype: "transform_of E C advanced_convert_filetype img st = (Inr img, st)"
  by (simp add: transform_of_def)

lemma run_operations_append:
  "run_operations E C (xs @ ys) w st
     = (case run_operations E C xs w st of (w', st') \<Rightarrow> run_operations E C ys w' st')"
  by (induction xs arbitrary: w st) (simp_all split: prod.split)

lemma conversions_both:
  assumes "checked C advanced_convert_filetype" and "checked C advanced_convert_modes"
    and "pil E (Image_convert (entry C advanced_convert_modes_option)) img1 = Inr img2"
  shows "run_operations E C conversions (img1, ext1) st1
     = ((img2, CHR ''.'' # str_lower (entry C advanced_convert_filetype_option)),
        st1\<lparr>log_listbox := log_listbox st1 @
          [''[ADVANCED] Converted image to filetype '' @ entry C advanced_convert_filetype_option @ ''.'',
           ''[ADVANCED] Converted image to mode '' @ entry C advanced_convert_modes_option @ ''.'']\<rparr>)"
  using assms
  by (simp add: conversions_def apply_operation_def check_def transform_of_def
        func_advanced_convert_filetype_def func_advanced_convert_mode_def call_then_log_def
        insert_log_def Let_def)


lemma run_schedule_entries:
  "run_schedule E C (map (Pair i) (map Entry fs) @ rest) st
     = run_schedule E C rest (process_entries E C fs st)"
  by (induction fs arbitrary: st) simp_all

lemma batch_alone_steps:
  assumes "fsencode_error E = None" and "makedirs_error E = None" and "listdir_error E = None"
    and "isdisjoint (map (entry_key E) (listdir_in E)) (map (entry_key E) (listdir_out E))
         \<or> checked C general_overwrite"
  shows "start_processing E C st = run_schedule E C (map (Pair i) (batch_steps E)) st"
proof -
  have "run_schedule E C (map (Pair i) (batch_steps E)) st
      = run_schedule E C [(i, Finish)] (process_entries E C (listdir_in E) (take_step E C Begin st))"
    using run_schedule_entries [of E C i "listdir_in E" "[(i, Finish)]"]
    by (simp add: batch_steps_def)
  also have "\<dots> = run_batch E C (take_step E C Begin st)"
    by (simp add: run_batch_def Let_def)
  also have "\<dots> = start_processing E C st"
    using assms by (auto simp add: start_processing_def Let_def)
  finally show ?thesis by simp
qed

lemma lower_char_space: "isspace (lower_char c) = isspace c"
  by (auto simp add: lower_char_def isspace_def Let_def)

lemma lower_char_ascii: "is_ascii c \<Longrightarrow> is_ascii (lower_char c)"
  by (auto simp add: lower_char_def is_ascii_def Let_def)

lemma strip_both:
  assumes "list_all isspace w1" and "list_all isspace w2"
    and "s \<noteq> []" and "\<not> isspace (hd s)" and "\<not> isspace (last s)"
  shows "strip (w1 @ s @ w2) = s"
proof -
  obtain c cs where s: "s = c # cs" using assms(3) by (cases s) auto
  with assms(4) have c: "\<not> isspace c" by simp
  have "\<forall>x \<in> set w1. isspace x" using assms(1) by (simp add: list_all_iff)
  then have a: "dropWhile isspace (w1 @ s @ w2) = s @ w2"
    using c s by (simp add: dropWhile_append2)
  obtain d ds where r: "rev s = d # ds" using assms(3) by (cases "rev s") auto
  then have "d = last s" using assms(3) by (metis last_rev list.sel(1) rev_rev_ident rev_is_Nil_conv)
  with assms(5) have d: "\<not> isspace d" by simp
  have "\<forall>x \<in> set (rev w2). isspace x" using assms(2) by (simp add: list_all_iff)
  then have "dropWhile isspace (rev w2 @ rev s) = dropWhile isspace (rev s)"
    by (intro dropWhile_append2) simp
  with d r have "dropWhile isspace (rev w2 @ rev s) = rev s" by simp
  with a show ?thesis by (simp add: strip_def)
qed

lemma entry_key_ascii:
  assumes "list_all is_ascii (w1 @ stem @ w2)" and "list_all isspace w1" and "list_all isspace w2"
    and "stem \<noteq> []" and "\<not> isspace (hd stem)" and "\<not> isspace (last stem)"
    and "CHR ''/'' \<notin> set (w1 @ stem @ w2)" and "CHR ''/'' \<notin> set ext" and "CHR ''.'' \<notin> set ext"
    and "list_ex (\<lambda>c. c \<noteq> CHR ''.'') (w1 @ stem @ w2)"
  shows "entry_key E (w1 @ stem @ w2 @ ''.'' @ ext) = map lower_char stem"
proof -
  let ?n = "w1 @ stem @ w2"
  have sp: "splitext (?n @ CHR ''.'' # ext) = (?n, CHR ''.'' # ext)"
    using assms(7-10) by (intro splitext_stem)
  have bn: "basename (?n @ CHR ''.'' # ext) = ?n @ CHR ''.'' # ext"
    using assms(7,8) by (intro basename_plain) simp
  have low: "py_lower E ?n = map lower_char w1 @ map lower_char stem @ map lower_char w2"
    using assms(1) by (simp add: py_lower_def str_lower_def)
  have asc: "list_all is_ascii (map lower_char w1 @ map lower_char stem @ map lower_char w2)"
    using assms(1) by (auto simp add: list_all_iff lower_char_ascii)
  have "strip (map lower_char w1 @ map lower_char stem @ map lower_char w2) = map lower_char stem"
    using assms(2-6)
    by (intro strip_both) (simp_all add: list_all_iff lower_char_space hd_map last_map)
  with asc have "py_strip E (py_lower E ?n) = map lower_char stem"
    by (simp only: low py_strip_def if_True)
  with sp bn show ?thesis by (simp add: entry_key_def)
qed

lemma entry_key_other:
  assumes "\<not> list_all is_ascii name" and "CHR ''/'' \<notin> set name" and "CHR ''/'' \<notin> set ext"
    and "CHR ''.'' \<notin> set ext" and "list_ex (\<lambda>c. c \<noteq> CHR ''.'') name"
  shows "entry_key E (name @ ''.'' @ ext) = py_strip E (unicode_lower E name)"
proof -
  have sp: "splitext (name @ CHR ''.'' # ext) = (name, CHR ''.'' # ext)"
    using assms(2-5) by (intro splitext_stem)
  have bn: "basename (name @ CHR ''.'' # ext) = name @ CHR ''.'' # ext"
    using assms(2,3) by (intro basename_plain) simp
  from sp bn assms(1) show ?thesis by (simp add: entry_key_def py_lower_def)
qed

subsection \<open>The claims\<close>

text \<open>
  C10 (one file counted as processed and as an error). A batch over a single picture with
  only Invert enabled, where Pillow refuses to invert it: the error is counted, the
  picture is saved all the same and counted as processed, and the summary reports one
  image and one error for one directory entry.
\<close>

theorem one_entry_counted_twice:
  "let E = sample_env\<lparr>listdir_in := [''a.png''], listdir_out := []\<rparr>;
       C = sample_config\<lparr>checked := (\<lambda>v. v = transform_invert)\<rparr>;
       st' = start_processing E C sample_state
   in length (listdir_in E) = 1 \<and> IMG_COUNT st' = 1 \<and> ERR_COUNT st' = 1
      \<and> map fst (written st') = [''output/a.png'']
      \<and> log_listbox st' =
           [''[INFO] Started processing job.'',
            ''[FILE] Processing a.png (PNG, 200x100, RGBA)...'',
            ''[ERROR] not supported for this image mode'',
            ''[FILE] Successfully processed a.png.'',
            ''[FILE] Applied extension-specific options.'',
            ''[FILE] Saved image: output/a.png'',
            ''[INFO] Finished processing 1 images with 1 error(s).'']
      \<and> IMG_COUNT st' + ERR_COUNT st' > int (length (listdir_in E))"
  by code_simp

text \<open>
  C6 (each metric line fails safe by itself). Not so in the code: the statistics are
  computed inside \<open>process\<close> with nothing around them. Here the image is converted to
  CMYK, extrema and median are selected, extrema succeeds and median raises: no image
  and no statistics file is written, and the entry is not counted as processed.
\<close>

theorem failing_metric_loses_the_image:
  "let E = sample_env\<lparr>listdir_in := [''a.png''], listdir_out := []\<rparr>;
       st' = start_processing E cmyk_config sample_state;
       img = fst (fst (pipeline E cmyk_config sample_image sample_state))
   in checked cmyk_config advanced_stats \<and> checked cmyk_config advanced_extrema
      \<and> checked cmyk_config advanced_median
      \<and> stat E Extrema img = Inr ''CMYK'' \<and> stat E Stat_median img = Inl ''median failed''
      \<and> written st' = [] \<and> IMG_COUNT st' = 0 \<and> ERR_COUNT st' = 1
      \<and> log_listbox st' =
           [''[INFO] Started processing job.'',
            ''[FILE] Processing a.png (PNG, 200x100, RGBA)...'',
            ''[ADVANCED] Converted image to filetype BLP.'',
            ''[ADVANCED] Converted image to mode CMYK.'',
            ''[ERROR] median failed'',
            ''[INFO] Finished processing 0 images with 1 error(s).'']"
  by code_simp

text \<open>
  C6 as amended. If a selected metric raises on the image that leaves the pipeline, the
  exception leaves \<open>process\<close>: the handler of the batch loop logs one ERROR line after
  the lines of the pipeline and counts one error, nothing is written for the entry and
  it is not counted as processed; the loop goes on with the next entry.
\<close>

theorem failing_metric_abandons_the_entry:
  assumes "Image_open E (path_join (entry C general_input_entry) file) = Inr opened"
    and "checked C advanced_stats" and "(flag, label, m) \<in> set metric_table" and "checked C flag"
    and "stat E m (fst (fst (pipeline E C opened st))) = Inl e"
  shows "\<exists>e'. process_entry E C file st = log_error e' (snd (pipeline E C opened st))
           \<and> log_listbox (process_entry E C file st)
               = log_listbox (snd (pipeline E C opened st)) @ [''[ERROR] '' @ e']
           \<and> ERR_COUNT (process_entry E C file st) = ERR_COUNT (snd (pipeline E C opened st)) + 1
           \<and> written (process_entry E C file st) = written st
           \<and> IMG_COUNT (process_entry E C file st) = IMG_COUNT st
           \<and> process_entries E C (file # files) st
               = process_entries E C files (log_error e' (snd (pipeline E C opened st)))"
proof -
  obtain e' where e': "statistics E C (fst (fst (pipeline E C opened st))) = Inl e'"
    using statistics_raises [OF assms(2-5)] by blast
  then have "process E C opened st = (Inl e', snd (pipeline E C opened st))"
    by (simp add: process_pipeline)
  with assms(1) have "process_entry E C file st = log_error e' (snd (pipeline E C opened st))"
    by (simp add: process_entry_def)
  then show ?thesis
    by (intro exI [of _ e']) (simp add: log_error_def insert_log_def pipeline_frame)
qed

theorem failing_metric_abandons_the_entry_witness:
  "\<exists>e'. process_entry sample_env cmyk_config ''a.png'' sample_state
           = log_error e' (snd (pipeline sample_env cmyk_config sample_image sample_state))
        \<and> written (process_entry sample_env cmyk_config ''a.png'' sample_state) = written sample_state
        \<and> IMG_COUNT (process_entry sample_env cmyk_config ''a.png'' sample_state) = IMG_COUNT sample_state"
proof -
  have h1: "Image_open sample_env (path_join (entry cmyk_config general_input_entry) ''a.png'') = Inr sample_image"
    by code_simp
  have h2: "checked cmyk_config advanced_stats" by code_simp
  have h3: "(advanced_median, ''median'', Stat_median) \<in> set metric_table" by code_simp
  have h4: "checked cmyk_config advanced_median" by code_simp
  have h5: "stat sample_env Stat_median (fst (fst (pipeline sample_env cmyk_config sample_image sample_state)))
              = Inl ''median failed''" by code_simp
  from failing_metric_abandons_the_entry [OF h1 h2 h3 h4 h5, of "[]"] show ?thesis by blast
qed

text \<open>
  C1 (a failing operation is isolated). When the transform of an enabled operation
  raises, it has logged nothing; \<open>check\<close> appends one ERROR line, adds one to the error
  counter and hands on the image it was given, and the rest of the pipeline runs on that
  image. The wrappers \<open>check\<close> and \<open>check2\<close> do so for any function that raises.
\<close>

theorem failing_operation_is_isolated:
  fixes func :: "'a \<Rightarrow> state \<Rightarrow> (string + 'a) \<times> state"
    and func2 :: "'b \<Rightarrow> 'a \<Rightarrow> state \<Rightarrow> (string + 'a) \<times> state"
  assumes "checked C v" and "transform_of E C v img st = (Inl e, st1)"
  shows "st1 = st
       \<and> check C v (transform_of E C v) img st
           = (img, st\<lparr>log_listbox := log_listbox st @ [''[ERROR] '' @ e], ERR_COUNT := ERR_COUNT st + 1\<rparr>)
       \<and> run_operations E C (v # rest) (img, ext) st
           = run_operations E C rest (img, ext)
               (st\<lparr>log_listbox := log_listbox st @ [''[ERROR] '' @ e], ERR_COUNT := ERR_COUNT st + 1\<rparr>)
       \<and> (func x s = (Inl e', s1) \<longrightarrow>
            check C v func x s
              = (x, s1\<lparr>log_listbox := log_listbox s1 @ [''[ERROR] '' @ e'], ERR_COUNT := ERR_COUNT s1 + 1\<rparr>))
       \<and> (func2 a x s = (Inl e', s1) \<longrightarrow>
            check2 C v func2 a x s
              = (x, s1\<lparr>log_listbox := log_listbox s1 @ [''[ERROR] '' @ e'], ERR_COUNT := ERR_COUNT s1 + 1\<rparr>))"
proof -
  have same: "st1 = st" using assms(2) by (rule transform_raise_keeps_state)
  have nf: "v \<noteq> advanced_convert_filetype"
    using assms(2) by (auto simp add: transform_of_filetype)
  have wrapped: "check C v (transform_of E C v) img st
           = (img, st\<lparr>log_listbox := log_listbox st @ [''[ERROR] '' @ e], ERR_COUNT := ERR_COUNT st + 1\<rparr>)"
    using assms same by (simp add: check_def log_error_def insert_log_def)
  have "run_operations E C (v # rest) (img, ext) st
           = run_operations E C rest (img, ext)
               (st\<lparr>log_listbox := log_listbox st @ [''[ERROR] '' @ e], ERR_COUNT := ERR_COUNT st + 1\<rparr>)"
    using nf by (simp add: apply_operation_def wrapped)
  with same wrapped assms(1) show ?thesis
    by (simp add: check_def check2_def log_error_def insert_log_def)
qed

theorem failing_operation_is_isolated_witness:
  "check invert_config transform_invert (transform_of sample_env invert_config transform_invert)
       sample_image sample_state
     = (sample_image, sample_state\<lparr>log_listbox := [''[ERROR] not supported for this image mode''],
                                    ERR_COUNT := 1\<rparr>)
   \<and> run_operations sample_env invert_config [transform_invert, transform_posterize] (sample_image, ''.png'') sample_state
     = run_operations sample_env invert_config [transform_posterize] (sample_image, ''.png'')
         (sample_state\<lparr>log_listbox := [''[ERROR] not supported for this image mode''], ERR_COUNT := 1\<rparr>)
   \<and> check2 invert_config transform_invert (\<lambda>a. func_transform_invert sample_env) ()
       sample_image sample_state
     = (sample_image, sample_state\<lparr>log_listbox := [''[ERROR] not supported for this image mode''],
                                    ERR_COUNT := 1\<rparr>)"
proof -
  have h1: "checked invert_config transform_invert" by code_simp
  have h2: "transform_of sample_env invert_config transform_invert sample_image sample_state
              = (Inl ''not supported for this image mode'', sample_state)" by code_simp
  have h3: "func_transform_invert sample_env sample_image sample_state
              = (Inl ''not supported for this image mode'', sample_state)" by code_simp
  have s: "log_listbox sample_state = []" "ERR_COUNT sample_state = 0"
    by (simp_all add: sample_state_def)
  from failing_operation_is_isolated [OF h1 h2,
         where rest = "[transform_posterize]" and ext = "''.png''"
           and func = "func_transform_invert sample_env" and x = sample_image and s = sample_state
           and e' = "''not supported for this image mode''" and ?s1.0 = sample_state
           and ?func2.0 = "\<lambda>a. func_transform_invert sample_env" and a = "()"] h3
  show ?thesis by (simp add: s)
qed

text \<open>
  C2 (one fixed order of stages). \<open>process\<close> is the walk through one constant list
  of operations: geometry, point operations, filters, enhancements, conversions; its last
  two entries are the filetype conversion and then the mode conversion. When both are
  enabled and Pillow converts the mode, the extension is replaced and logged first, the
  pixels are converted second; the statistics that \<open>process\<close> returns are those of the
  image it returns, the one that left the whole pipeline.
\<close>

theorem stages_run_in_fixed_order:
  "process E C img st = process_staged E C img st
   \<and> stage_order =
       [transform_resize, transform_transpose, transform_crop, transform_scale, transform_expand,
        transform_flip, transform_mirror, transform_equalize, transform_grayscale,
        transform_invert, transform_posterize, transform_solarize,
        transform_blur, transform_contour, transform_detail, transform_edge_enhance,
        transform_edge_enhance_more, transform_emboss, transform_find_edges, transform_sharpen,
        transform_smooth, transform_smooth_more,
        transform_color, transform_contrast, transform_brightness, transform_sharpness,
        advanced_convert_filetype, advanced_convert_modes]
   \<and> pipeline E C img st =
       (case run_operations E C (geometry @ point_operations @ filters @ enhancements)
               (img, snd (splitext (filename img))) (insert_log (processing_line img) st) of
          (w, st1) \<Rightarrow> run_operations E C conversions w st1)
   \<and> (checked C advanced_convert_filetype \<and> checked C advanced_convert_modes
        \<and> pil E (Image_convert (entry C advanced_convert_modes_option)) img1 = Inr img2 \<longrightarrow>
        run_operations E C conversions (img1, ext1) st1
          = ((img2, CHR ''.'' # str_lower (entry C advanced_convert_filetype_option)),
             st1\<lparr>log_listbox := log_listbox st1 @
               [''[ADVANCED] Converted image to filetype '' @ entry C advanced_convert_filetype_option @ ''.'',
                ''[ADVANCED] Converted image to mode '' @ entry C advanced_convert_modes_option @ ''.'']\<rparr>))
   \<and> (process E C img st = (Inr (img', img_name, img_extension, img_stats), st') \<longrightarrow>
        img' = fst (fst (pipeline E C img st)) \<and> statistics E C img' = Inr img_stats)"
proof (intro conjI impI)
  show "process E C img st = process_staged E C img st" by (rule process_staged_eq)
  show "stage_order =
       [transform_resize, transform_transpose, transform_crop, transform_scale, transform_expand,
        transform_flip, transform_mirror, transform_equalize, transform_grayscale,
        transform_invert, transform_posterize, transform_solarize,
        transform_blur, transform_contour, transform_detail, transform_edge_enhance,
        transform_edge_enhance_more, transform_emboss, transform_find_edges, transform_sharpen,
        transform_smooth, transform_smooth_more,
        transform_color, transform_contrast, transform_brightness, transform_sharpness,
        advanced_convert_filetype, advanced_convert_modes]"
    by (simp add: stage_order_def geometry_def point_operations_def filters_def enhancements_def
          conversions_def)
  have so: "stage_order = (geometry @ point_operations @ filters @ enhancements) @ conversions"
    by (simp add: stage_order_def)
  show "pipeline E C img st =
       (case run_operations E C (geometry @ point_operations @ filters @ enhancements)
               (img, snd (splitext (filename img))) (insert_log (processing_line img) st) of
          (w, st1) \<Rightarrow> run_operations E C conversions w st1)"
    unfolding pipeline_def so by (rule run_operations_append)
next
  assume "checked C advanced_convert_filetype \<and> checked C advanced_convert_modes
        \<and> pil E (Image_convert (entry C advanced_convert_modes_option)) img1 = Inr img2"
  then show "run_operations E C conversions (img1, ext1) st1
          = ((img2, CHR ''.'' # str_lower (entry C advanced_convert_filetype_option)),
             st1\<lparr>log_listbox := log_listbox st1 @
               [''[ADVANCED] Converted image to filetype '' @ entry C advanced_convert_filetype_option @ ''.'',
                ''[ADVANCED] Converted image to mode '' @ entry C advanced_convert_modes_option @ ''.'']\<rparr>)"
    by (intro conversions_both) simp_all
next
  assume p: "process E C img st = (Inr (img', img_name, img_extension, img_stats), st')"
  then show "img' = fst (fst (pipeline E C img st))"
    by (simp add: process_pipeline split: sum.splits)
  with p show "statistics E C img' = Inr img_stats"
    by (simp add: process_pipeline split: sum.splits)
qed

theorem stages_run_in_fixed_order_witness:
  "run_operations sample_env cmyk_config conversions (sample_image, ''.png'') sample_state
     = ((sample_image\<lparr>mode := ''CMYK''\<rparr>, ''.blp''),
        sample_state\<lparr>log_listbox :=
          [''[ADVANCED] Converted image to filetype BLP.'', ''[ADVANCED] Converted image to mode CMYK.'']\<rparr>)
   \<and> statistics sample_env stats_config (sample_image\<lparr>mode := ''CMYK''\<rparr>)
     = Inr (''extrema:CMYK'' @ [CHR 0x0A] @ ''count:[0]'' @ [CHR 0x0A])"
proof -
  let ?stats = "''extrema:CMYK'' @ [CHR 0x0A] @ ''count:[0]'' @ [CHR 0x0A]"
  have h1: "checked cmyk_config advanced_convert_filetype \<and> checked cmyk_config advanced_convert_modes
        \<and> pil sample_env (Image_convert (entry cmyk_config advanced_convert_modes_option)) sample_image
            = Inr (sample_image\<lparr>mode := ''CMYK''\<rparr>)" by code_simp
  have h2: "fst (process sample_env stats_config sample_image sample_state)
              = Inr (sample_image\<lparr>mode := ''CMYK''\<rparr>, ''a'', ''.blp'', ?stats)"
    by code_simp
  then obtain st' where h2': "process sample_env stats_config sample_image sample_state
              = (Inr (sample_image\<lparr>mode := ''CMYK''\<rparr>, ''a'', ''.blp'', ?stats), st')"
    by (cases "process sample_env stats_config sample_image sample_state") simp
  have v: "str_lower ''BLP'' = ''blp''"
     "entry cmyk_config advanced_convert_filetype_option = ''BLP''"
     "entry cmyk_config advanced_convert_modes_option = ''CMYK''"
     "log_listbox sample_state = []" by code_simp+
  from stages_run_in_fixed_order [where E = sample_env and C = cmyk_config and ?img1.0 = sample_image
         and ?img2.0 = "sample_image\<lparr>mode := ''CMYK''\<rparr>" and ?ext1.0 = "''.png''" and ?st1.0 = sample_state] h1
  have a: "run_operations sample_env cmyk_config conversions (sample_image, ''.png'') sample_state
     = ((sample_image\<lparr>mode := ''CMYK''\<rparr>, ''.blp''),
        sample_state\<lparr>log_listbox :=
          [''[ADVANCED] Converted image to filetype BLP.'', ''[ADVANCED] Converted image to mode CMYK.'']\<rparr>)"
    by (simp add: v)
  from stages_run_in_fixed_order [where E = sample_env and C = stats_config and img = sample_image and st = sample_state
         and img' = "sample_image\<lparr>mode := ''CMYK''\<rparr>" and img_name = "''a''" and img_extension = "''.blp''"
         and img_stats = ?stats and st' = st'] h2'
  have b: "statistics sample_env stats_config (sample_image\<lparr>mode := ''CMYK''\<rparr>) = Inr ?stats"
    by blast
  from a b show ?thesis by blast
qed






text \<open>
  C8 (the overwrite dialog). The dialog is shown once when the two directories share a
  key and the overwrite box is not set, and never otherwise; when the operator declines,
  the batch logs its start and its abort, counts no image and writes nothing. The key of
  an ASCII name is its stem, without the extension and without the white space around
  it, in lower case: tab, space, \<open>My Photo\<close>, two spaces, \<open>.JPEG\<close> has the key
  \<open>my photo\<close>. The key of any other name is the stem as Python's own \<^verbatim>\<open>lower\<close> and
  \<^verbatim>\<open>strip\<close> leave it.
\<close>

theorem overwrite_dialog_once:
  assumes "fsencode_error E = None" and "makedirs_error E = None" and "listdir_error E = None"
  shows "dialogs (start_processing E C st)
           = dialogs st + (if name_collision E \<and> \<not> checked C general_overwrite then 1 else 0)
       \<and> (name_collision E \<and> \<not> checked C general_overwrite \<and> \<not> askokcancel E \<longrightarrow>
            log_listbox (start_processing E C st)
              = log_listbox st @ [''[INFO] Started processing job.'', ''[INFO] Aborted processing job.'']
            \<and> IMG_COUNT (start_processing E C st) = 0
            \<and> written (start_processing E C st) = written st)
       \<and> (list_all is_ascii (w1 @ stem @ w2) \<and> list_all isspace w1 \<and> list_all isspace w2
            \<and> stem \<noteq> [] \<and> \<not> isspace (hd stem) \<and> \<not> isspace (last stem)
            \<and> CHR ''/'' \<notin> set (w1 @ stem @ w2) \<and> CHR ''/'' \<notin> set ext \<and> CHR ''.'' \<notin> set ext
            \<and> list_ex (\<lambda>c. c \<noteq> CHR ''.'') (w1 @ stem @ w2) \<longrightarrow>
            entry_key E (w1 @ stem @ w2 @ ''.'' @ ext) = map lower_char stem)
       \<and> entry_key E ([CHR 0x09] @ '' My Photo  .JPEG'') = ''my photo''
       \<and> (\<not> list_all is_ascii name \<and> CHR ''/'' \<notin> set name \<and> CHR ''/'' \<notin> set ext
            \<and> CHR ''.'' \<notin> set ext \<and> list_ex (\<lambda>c. c \<noteq> CHR ''.'') name \<longrightarrow>
            entry_key E (name @ ''.'' @ ext) = py_strip E (unicode_lower E name))"
proof (intro conjI impI)
  show "dialogs (start_processing E C st)
           = dialogs st + (if name_collision E \<and> \<not> checked C general_overwrite then 1 else 0)"
    using assms
    by (simp add: start_processing_def Let_def name_collision_def isdisjoint_iff run_batch_frame
          thread_exit_def insert_log_def)
next
  assume a: "name_collision E \<and> \<not> checked C general_overwrite \<and> \<not> askokcancel E"
  with assms show "log_listbox (start_processing E C st)
              = log_listbox st @ [''[INFO] Started processing job.'', ''[INFO] Aborted processing job.'']"
    by (simp add: start_processing_def Let_def name_collision_def isdisjoint_iff thread_exit_def insert_log_def)
  from a assms show "IMG_COUNT (start_processing E C st) = 0"
    by (simp add: start_processing_def Let_def name_collision_def isdisjoint_iff thread_exit_def insert_log_def)
  from a assms show "written (start_processing E C st) = written st"
    by (simp add: start_processing_def Let_def name_collision_def isdisjoint_iff thread_exit_def insert_log_def)
next
  assume "list_all is_ascii (w1 @ stem @ w2) \<and> list_all isspace w1 \<and> list_all isspace w2
            \<and> stem \<noteq> [] \<and> \<not> isspace (hd stem) \<and> \<not> isspace (last stem)
            \<and> CHR ''/'' \<notin> set (w1 @ stem @ w2) \<and> CHR ''/'' \<notin> set ext \<and> CHR ''.'' \<notin> set ext
            \<and> list_ex (\<lambda>c. c \<noteq> CHR ''.'') (w1 @ stem @ w2)"
  then show "entry_key E (w1 @ stem @ w2 @ ''.'' @ ext) = map lower_char stem"
    by (intro entry_key_ascii) simp_all
next
  have "entry_key E ([CHR 0x09, CHR '' ''] @ ''My Photo'' @ ''  '' @ ''.'' @ ''JPEG'') = map lower_char ''My Photo''"
    by (intro entry_key_ascii) (simp_all add: is_ascii_def isspace_def)
  moreover have "map lower_char ''My Photo'' = ''my photo''" by code_simp
  ultimately show "entry_key E ([CHR 0x09] @ '' My Photo  .JPEG'') = ''my photo''" by simp
next
  assume "\<not> list_all is_ascii name \<and> CHR ''/'' \<notin> set name \<and> CHR ''/'' \<notin> set ext
            \<and> CHR ''.'' \<notin> set ext \<and> list_ex (\<lambda>c. c \<noteq> CHR ''.'') name"
  then show "entry_key E (name @ ''.'' @ ext) = py_strip E (unicode_lower E name)"
    by (intro entry_key_other) simp_all
qed

theorem overwrite_dialog_once_witness:
  "dialogs (start_processing declining_env sample_config sample_state) = 1
   \<and> log_listbox (start_processing declining_env sample_config sample_state)
       = [''[INFO] Started processing job.'', ''[INFO] Aborted processing job.'']
   \<and> IMG_COUNT (start_processing declining_env sample_config sample_state) = 0
   \<and> written (start_processing declining_env sample_config sample_state) = []
   \<and> entry_key declining_env ([CHR 0x09] @ '' B  .JPEG'') = ''b''
   \<and> entry_key declining_env ([CHR 0xC3, CHR 0x89] @ ''.png'') = [CHR 0xC3, CHR 0xA9]"
proof -
  have h1: "fsencode_error declining_env = None" by code_simp
  have h2: "makedirs_error declining_env = None" by code_simp
  have h2': "listdir_error declining_env = None" by code_simp
  have h3: "name_collision declining_env \<and> \<not> checked sample_config general_overwrite
              \<and> \<not> askokcancel declining_env" by code_simp
  have h4: "list_all is_ascii ([CHR 0x09, CHR '' ''] @ ''B'' @ ''  '') \<and> list_all isspace [CHR 0x09, CHR '' '']
            \<and> list_all isspace ''  '' \<and> ''B'' \<noteq> [] \<and> \<not> isspace (hd ''B'') \<and> \<not> isspace (last ''B'')
            \<and> CHR ''/'' \<notin> set ([CHR 0x09, CHR '' ''] @ ''B'' @ ''  '') \<and> CHR ''/'' \<notin> set ''JPEG''
            \<and> CHR ''.'' \<notin> set ''JPEG''
            \<and> list_ex (\<lambda>c. c \<noteq> CHR ''.'') ([CHR 0x09, CHR '' ''] @ ''B'' @ ''  '')" by code_simp
  have h5: "\<not> list_all is_ascii [CHR 0xC3, CHR 0x89] \<and> CHR ''/'' \<notin> set [CHR 0xC3, CHR 0x89]
            \<and> CHR ''/'' \<notin> set ''png'' \<and> CHR ''.'' \<notin> set ''png''
            \<and> list_ex (\<lambda>c. c \<noteq> CHR ''.'') [CHR 0xC3, CHR 0x89]" by code_simp
  have s: "dialogs sample_state = 0" "log_listbox sample_state = []" "written sample_state = []"
    by (simp_all add: sample_state_def)
  have k: "lower_char CHR ''B'' = CHR ''b''"
    "py_strip declining_env (unicode_lower declining_env [CHR 0xC3, CHR 0x89]) = [CHR 0xC3, CHR 0xA9]"
    by code_simp+
  note T = overwrite_dialog_once [OF h1 h2 h2', where C = sample_config and st = sample_state
             and ?w1.0 = "[CHR 0x09, CHR '' '']" and stem = "''B''" and ?w2.0 = "''  ''" and ext = "''JPEG''" and name = "[]"]
  note U = overwrite_dialog_once [OF h1 h2 h2', where C = sample_config and st = sample_state
             and name = "[CHR 0xC3, CHR 0x89]" and ext = "''png''"
             and ?w1.0 = "[]" and stem = "[]" and ?w2.0 = "[]"]
  from T h3 h4 have a: "dialogs (start_processing declining_env sample_config sample_state) = 1
     \<and> log_listbox (start_processing declining_env sample_config sample_state)
       = [''[INFO] Started processing job.'', ''[INFO] Aborted processing job.'']
     \<and> IMG_COUNT (start_processing declining_env sample_config sample_state) = 0
     \<and> written (start_processing declining_env sample_config sample_state) = []
     \<and> entry_key declining_env ([CHR 0x09] @ '' B  .JPEG'') = ''b''"
    by (simp add: s k)
  from U h5 have b: "entry_key declining_env ([CHR 0xC3, CHR 0x89] @ ''.png'') = [CHR 0xC3, CHR 0xA9]"
    by (simp add: k)
  from a b show ?thesis by blast
qed

end
